theory Spec2Isabelle
  imports Complex_Main "HOL-Library.Sublist"
begin

section \<open>Python string operations used by the mapping service\<close>

text \<open>
  Strings are lists of characters. The source data (sample vocabulary, keyword tables,
  mock terminology entries) is ASCII, and the string operations are modelled on ASCII:
  \<open>str.lower()\<close> maps \<open>A\<close>..\<open>Z\<close> to \<open>a\<close>..\<open>z\<close> and leaves every other character alone;
  \<open>str.strip()\<close> removes the ASCII whitespace characters (codes 9..13 and 28..32) from
  both ends.
\<close>

definition lower_char :: "char \<Rightarrow> char" where
  "lower_char c =
     (case map_of (zip ''ABCDEFGHIJKLMNOPQRSTUVWXYZ'' ''abcdefghijklmnopqrstuvwxyz'') c of
        Some d \<Rightarrow> d
      | None \<Rightarrow> c)"

definition lower :: "string \<Rightarrow> string" where
  "lower s = map lower_char s"

definition is_space :: "char \<Rightarrow> bool" where
  "is_space c = (let n = (of_char c :: nat) in (9 \<le> n \<and> n \<le> 13) \<or> (28 \<le> n \<and> n \<le> 32))"

definition strip :: "string \<Rightarrow> string" where
  "strip s = rev (dropWhile is_space (rev (dropWhile is_space s)))"

text \<open>\<open>t in s\<close> for strings: \<open>t\<close> occurs in \<open>s\<close> as a contiguous substring.\<close>

fun py_in :: "string \<Rightarrow> string \<Rightarrow> bool" where
  "py_in t [] = (t = [])"
| "py_in t (c # cs) = (prefix t (c # cs) \<or> py_in t cs)"

text \<open>\<open>re.split(r'[\(\)]', s)[0]\<close>: the part of \<open>s\<close> before the first parenthesis.\<close>

definition before_paren :: "string \<Rightarrow> string" where
  "before_paren s = takeWhile (\<lambda>c. c \<noteq> CHR ''('' \<and> c \<noteq> CHR '')'') s"

section \<open>Equivalence classifier\<close>

text \<open>
  A Python float is a number, an infinity or the not-a-number value. Only comparisons
  against the finite thresholds of the code are needed: \<open>float_ge x t\<close> is \<open>x >= t\<close> and
  \<open>float_lt x t\<close> is \<open>x < t\<close>; every comparison with not-a-number is false.
\<close>

datatype pyfloat = Num real | PosInf | NegInf | NaN

fun float_ge :: "pyfloat \<Rightarrow> real \<Rightarrow> bool" where
  "float_ge (Num x) t = (x \<ge> t)"
| "float_ge PosInf t = True"
| "float_ge NegInf t = False"
| "float_ge NaN t = False"

fun float_lt :: "pyfloat \<Rightarrow> real \<Rightarrow> bool" where
  "float_lt (Num x) t = (x < t)"
| "float_lt PosInf t = False"
| "float_lt NegInf t = True"
| "float_lt NaN t = False"

text \<open>
  \<open>MappingService._determine_equivalence\<close>. The resolver calls it on the scores it
  computes; those are numbers, modelled as reals, and enter as \<open>Num\<close>.
\<close>

definition determine_equivalence :: "pyfloat \<Rightarrow> string" where
  "determine_equivalence confidence =
     (if float_ge confidence 0.8 then ''equivalent''
      else if float_ge confidence 0.6 then ''wider''
      else if float_ge confidence 0.4 then ''narrower''
      else ''related'')"

section \<open>Data model\<close>

text \<open>
  A terminology entry is the dictionary the services hand to the mapping service. The
  record keeps the keys that the mapping service reads: \<open>code\<close>, \<open>display\<close>,
  \<open>definition\<close>, \<open>system\<close>, and (source vocabulary only) \<open>category\<close> and \<open>bodySystem\<close>;
  an entry of the target classification has the empty string for the last two, which is
  what \<open>dict.get(key, '')\<close> reads there. The remaining keys (\<open>id\<close>, \<open>systemName\<close>,
  \<open>isLeaf\<close>, \<open>codeSystem\<close>, \<open>version\<close>) are carried through unread and are left out.
\<close>

record entry =
  code :: string
  display :: string
  definition_text :: string
  system :: string
  category :: string
  bodySystem :: string

text \<open>A mapping candidate is an entry with the three keys the resolver adds to it.\<close>

record candidate = entry +
  equivalence :: string
  mappingMethod :: string
  confidence :: real

definition tag :: "entry \<Rightarrow> string \<Rightarrow> string \<Rightarrow> real \<Rightarrow> candidate" where
  "tag e eq method conf =
     \<lparr>code = code e, display = display e, definition_text = definition_text e,
      system = system e, category = category e, bodySystem = bodySystem e,
      equivalence = eq, mappingMethod = method, confidence = conf\<rparr>"

text \<open>A row of the source vocabulary table, as \<open>create_sample_namaste_data\<close> builds it.\<close>

record row =
  row_code :: string
  row_display :: string
  row_definition :: string
  row_system :: string
  row_category :: string
  row_body_system :: string

text \<open>An entry of the predefined mapping table.\<close>

record mapping =
  m_system :: string
  m_code :: string
  m_equivalence :: string

text \<open>
  An exception raised by a collaborator. A function that can raise returns
  \<open>error + 'a\<close>, with \<open>Inl\<close> for the exception.
\<close>

datatype error = ProviderFailure string

text \<open>
  The collaborators of \<open>MappingService\<close>:
  \<^item> \<open>sequence_ratio a b\<close> is \<open>difflib.SequenceMatcher(None, a, b).ratio()\<close>, a function
    of the Python standard library;
  \<^item> \<open>set_order ts\<close> is \<open>list(set(ts))\<close>: the distinct elements of \<open>ts\<close> in the order
    in which the interpreter iterates over the set;
  \<^item> \<open>search_icd11_codes\<close> and \<open>get_icd11_code_details\<close> are the two operations of
    \<open>self.icd11_service\<close> that the mapping service calls;
  \<^item> \<open>sample_namaste_data\<close> is what \<open>self.namaste_service.create_sample_namaste_data()\<close>
    returns;
  \<^item> \<open>format_confidence c\<close> is \<open>f"{c:.2f}"\<close>: the interpreter's rendering of the float
    confidence with two decimals. It rounds the binary float, which the real number of
    the model does not determine at a tie, so it is a parameter.
\<close>

record env =
  sequence_ratio :: "string \<Rightarrow> string \<Rightarrow> real"
  set_order :: "string list \<Rightarrow> string list"
  search_icd11_codes :: "string \<Rightarrow> string \<Rightarrow> nat \<Rightarrow> error + entry list"
  get_icd11_code_details :: "string \<Rightarrow> error + entry option"
  sample_namaste_data :: "row list"
  format_confidence :: "real \<Rightarrow> string"

section \<open>Source vocabulary service\<close>

definition create_sample_namaste_data :: "row list" where
  "create_sample_namaste_data =
    [\<lparr>row_code = ''NAM001'', row_display = ''Ama (Undigested food toxins)'',
      row_definition = ''Accumulation of undigested food particles leading to toxicity'',
      row_system = ''Ayurveda'', row_category = ''Digestive Disorders'',
      row_body_system = ''Gastrointestinal''\<rparr>,
     \<lparr>row_code = ''NAM002'', row_display = ''Vata Dosha Imbalance'',
      row_definition = ''Constitutional imbalance of Vata dosha affecting movement and nervous system'',
      row_system = ''Ayurveda'', row_category = ''Constitutional Disorders'',
      row_body_system = ''Nervous System''\<rparr>,
     \<lparr>row_code = ''NAM003'', row_display = ''Pitta Dosha Imbalance'',
      row_definition = ''Constitutional imbalance of Pitta dosha affecting metabolism and heat'',
      row_system = ''Ayurveda'', row_category = ''Constitutional Disorders'',
      row_body_system = ''Metabolic System''\<rparr>,
     \<lparr>row_code = ''NAM004'', row_display = ''Kapha Dosha Imbalance'',
      row_definition = ''Constitutional imbalance of Kapha dosha affecting structure and immunity'',
      row_system = ''Ayurveda'', row_category = ''Constitutional Disorders'',
      row_body_system = ''Immune System''\<rparr>,
     \<lparr>row_code = ''NAM005'', row_display = ''Ajirna (Indigestion)'',
      row_definition = ''Impaired digestion leading to various gastrointestinal symptoms'',
      row_system = ''Ayurveda'', row_category = ''Digestive Disorders'',
      row_body_system = ''Gastrointestinal''\<rparr>,
     \<lparr>row_code = ''SID001'', row_display = ''Vatham Imbalance'',
      row_definition = ''Vatham dosha imbalance in Siddha system'',
      row_system = ''Siddha'', row_category = ''Constitutional Disorders'',
      row_body_system = ''Nervous System''\<rparr>,
     \<lparr>row_code = ''SID002'', row_display = ''Pitham Imbalance'',
      row_definition = ''Pitham dosha imbalance in Siddha system'',
      row_system = ''Siddha'', row_category = ''Constitutional Disorders'',
      row_body_system = ''Metabolic System''\<rparr>,
     \<lparr>row_code = ''UNA001'', row_display = ''Su-i-Mizaj (Temperament Disorder)'',
      row_definition = ''Imbalance in temperament according to Unani medicine'',
      row_system = ''Unani'', row_category = ''Temperament Disorders'',
      row_body_system = ''Constitutional''\<rparr>,
     \<lparr>row_code = ''UNA002'', row_display = ''Soo-i-Hazm (Dyspepsia)'',
      row_definition = ''Digestive disorder characterized by impaired digestion'',
      row_system = ''Unani'', row_category = ''Digestive Disorders'',
      row_body_system = ''Gastrointestinal''\<rparr>,
     \<lparr>row_code = ''NAM006'', row_display = ''Shirahshula (Headache)'',
      row_definition = ''Head pain due to various doshic imbalances'',
      row_system = ''Ayurveda'', row_category = ''Neurological Disorders'',
      row_body_system = ''Nervous System''\<rparr>]"

text \<open>The dictionary that both lookups of the source vocabulary build from a row.\<close>

definition format_row :: "row \<Rightarrow> entry" where
  "format_row r =
     \<lparr>code = row_code r, display = row_display r, definition_text = row_definition r,
      system = row_system r, category = row_category r, bodySystem = row_body_system r\<rparr>"

text \<open>\<open>NAMASTEService.get_namaste_code_details\<close>: the first row with the code, or \<open>None\<close>.\<close>

fun get_namaste_code_details :: "string \<Rightarrow> row list \<Rightarrow> entry option" where
  "get_namaste_code_details c [] = None"
| "get_namaste_code_details c (item # items) =
     (if row_code item = c then Some (format_row item) else get_namaste_code_details c items)"

text \<open>
  \<open>NAMASTEService.search_namaste_codes\<close>: the rows whose code, display or definition
  contains the lower-cased, stripped search term, in table order; the loop stops as soon
  as the number of rows collected reaches the limit (the test follows the append).
\<close>

definition row_matches :: "string \<Rightarrow> row \<Rightarrow> bool" where
  "row_matches t r =
     (py_in t (lower (row_code r)) \<or> py_in t (lower (row_display r)) \<or>
      py_in t (lower (row_definition r)))"

fun matching_rows :: "string \<Rightarrow> nat \<Rightarrow> row list \<Rightarrow> row list \<Rightarrow> row list" where
  "matching_rows t limit acc [] = acc"
| "matching_rows t limit acc (r # rs) =
     (if row_matches t r
      then (if length (acc @ [r]) \<ge> limit then acc @ [r]
            else matching_rows t limit (acc @ [r]) rs)
      else matching_rows t limit acc rs)"

definition search_namaste_codes :: "string \<Rightarrow> row list \<Rightarrow> nat \<Rightarrow> entry list" where
  "search_namaste_codes search_term namaste_data limit =
     map format_row (matching_rows (strip (lower search_term)) limit [] namaste_data)"

section \<open>Similarity scorer\<close>

definition common_terms :: "string list" where
  "common_terms =
     [''pain'', ''disorder'', ''syndrome'', ''disease'', ''condition'',
      ''digestive'', ''neurological'', ''constitutional'', ''headache'',
      ''indigestion'', ''imbalance'']"

text \<open>\<open>MappingService._calculate_keyword_bonus\<close>.\<close>

definition calculate_keyword_bonus :: "entry \<Rightarrow> entry \<Rightarrow> real" where
  "calculate_keyword_bonus namaste_details icd_match =
     (let namaste_text = lower (display namaste_details @ '' '' @ definition_text namaste_details);
          icd_text = lower (display icd_match @ '' '' @ definition_text icd_match);
          bonus = foldl (\<lambda>b t. if py_in t namaste_text \<and> py_in t icd_text then b + 0.1 else b)
                    0 common_terms
      in min bonus 1.0)"

text \<open>
  \<open>MappingService._calculate_similarity\<close>. Its \<open>except\<close> branch (return 0.0) cannot be
  reached on entries whose display and definition are strings.
\<close>

definition calculate_similarity :: "env \<Rightarrow> entry \<Rightarrow> entry \<Rightarrow> real" where
  "calculate_similarity E namaste_details icd_match =
     (let display_similarity =
            sequence_ratio E (lower (display namaste_details)) (lower (display icd_match));
          def_similarity =
            sequence_ratio E (lower (definition_text namaste_details))
              (lower (definition_text icd_match));
          keyword_bonus = calculate_keyword_bonus namaste_details icd_match;
          final_score = display_similarity * 0.4 + def_similarity * 0.4 + keyword_bonus * 0.2
      in min final_score 1.0)"

section \<open>Search-term extraction\<close>

text \<open>
  \<open>MappingService._extract_search_terms\<close>. \<open>collected_terms\<close> is the list \<open>terms\<close> the
  function builds; the function returns \<open>list(set(terms))\<close>.
\<close>

definition collected_terms :: "entry \<Rightarrow> string list" where
  "collected_terms namaste_details =
     (let display_l = lower (display namaste_details);
          main_term = strip (before_paren display_l);
          category_l = lower (category namaste_details);
          body_system = lower (bodySystem namaste_details)
      in (if main_term \<noteq> [] then [main_term] else []) @
         (if py_in ''digestive'' category_l then [''digestion'', ''stomach'', ''gastric'']
          else if py_in ''constitutional'' category_l
            then [''constitutional'', ''temperament'', ''pattern'']
          else if py_in ''neurological'' category_l
            then [''neurological'', ''nervous'', ''brain'']
          else []) @
         (if py_in ''gastrointestinal'' body_system then [''gastrointestinal'', ''digestive'']
          else if py_in ''nervous'' body_system then [''nervous'', ''neurological'']
          else []) @
         (if py_in ''headache'' display_l then [''headache'', ''cephalgia'']
          else if py_in ''indigestion'' display_l then [''indigestion'', ''dyspepsia'']
          else if py_in ''dosha'' display_l then [''constitutional'', ''pattern'']
          else []))"

definition extract_search_terms :: "env \<Rightarrow> entry \<Rightarrow> string list" where
  "extract_search_terms E namaste_details = set_order E (collected_terms namaste_details)"

section \<open>Predefined mapping table\<close>

text \<open>
  \<open>self.predefined_mappings\<close>: a dictionary, which keeps the order in which its keys were
  inserted; the reverse translation iterates over it in that order.
\<close>

definition predefined_mappings :: "(string \<times> mapping list) list" where
  "predefined_mappings =
    [(''NAM001'', [\<lparr>m_system = ''tm2'', m_code = ''TM2.02'', m_equivalence = ''equivalent''\<rparr>,
                  \<lparr>m_system = ''biomedicine'', m_code = ''K30'', m_equivalence = ''wider''\<rparr>]),
     (''NAM002'', [\<lparr>m_system = ''tm2'', m_code = ''TM2.01'', m_equivalence = ''equivalent''\<rparr>,
                  \<lparr>m_system = ''biomedicine'', m_code = ''Z73.3'', m_equivalence = ''wider''\<rparr>]),
     (''NAM003'', [\<lparr>m_system = ''tm2'', m_code = ''TM2.01'', m_equivalence = ''equivalent''\<rparr>,
                  \<lparr>m_system = ''biomedicine'', m_code = ''Z73.3'', m_equivalence = ''wider''\<rparr>]),
     (''NAM004'', [\<lparr>m_system = ''tm2'', m_code = ''TM2.01'', m_equivalence = ''equivalent''\<rparr>,
                  \<lparr>m_system = ''biomedicine'', m_code = ''Z73.3'', m_equivalence = ''wider''\<rparr>]),
     (''NAM005'', [\<lparr>m_system = ''tm2'', m_code = ''TM2.02'', m_equivalence = ''equivalent''\<rparr>,
                  \<lparr>m_system = ''biomedicine'', m_code = ''K30'', m_equivalence = ''equivalent''\<rparr>]),
     (''NAM006'', [\<lparr>m_system = ''tm2'', m_code = ''TM2.03'', m_equivalence = ''equivalent''\<rparr>,
                  \<lparr>m_system = ''biomedicine'', m_code = ''G44.2'', m_equivalence = ''equivalent''\<rparr>]),
     (''SID001'', [\<lparr>m_system = ''tm2'', m_code = ''TM2.01'', m_equivalence = ''equivalent''\<rparr>,
                  \<lparr>m_system = ''biomedicine'', m_code = ''Z73.3'', m_equivalence = ''wider''\<rparr>]),
     (''SID002'', [\<lparr>m_system = ''tm2'', m_code = ''TM2.01'', m_equivalence = ''equivalent''\<rparr>,
                  \<lparr>m_system = ''biomedicine'', m_code = ''Z73.3'', m_equivalence = ''wider''\<rparr>]),
     (''UNA001'', [\<lparr>m_system = ''tm2'', m_code = ''TM2.01'', m_equivalence = ''equivalent''\<rparr>,
                  \<lparr>m_system = ''biomedicine'', m_code = ''Z73.3'', m_equivalence = ''wider''\<rparr>]),
     (''UNA002'', [\<lparr>m_system = ''tm2'', m_code = ''TM2.02'', m_equivalence = ''equivalent''\<rparr>,
                  \<lparr>m_system = ''biomedicine'', m_code = ''K30'', m_equivalence = ''equivalent''\<rparr>])]"

section \<open>Mapping resolver: forward translation\<close>

text \<open>
  The body of the loop over \<open>tm2_matches\<close> (and over \<open>bio_matches\<close>, which is the same
  code) in \<open>_perform_automatic_mapping\<close>: score each match and keep it, tagged, when its
  confidence is above 0.3.
\<close>

fun score_matches :: "env \<Rightarrow> entry \<Rightarrow> entry list \<Rightarrow> candidate list" where
  "score_matches E namaste_details [] = []"
| "score_matches E namaste_details (m # ms) =
     (let c = calculate_similarity E namaste_details m
      in if c > 0.3
         then tag m (determine_equivalence (Num c)) ''automatic'' c # score_matches E namaste_details ms
         else score_matches E namaste_details ms)"

text \<open>
  The loop over the search terms. A failing provider call raises, which leaves the loop:
  the result is \<open>Inl\<close> then.
\<close>

fun search_loop :: "env \<Rightarrow> entry \<Rightarrow> string \<Rightarrow> string list \<Rightarrow> error + candidate list" where
  "search_loop E namaste_details target_system [] = Inr []"
| "search_loop E namaste_details target_system (search_term # ts) =
     (case (if target_system \<in> {''tm2'', ''both''}
            then search_icd11_codes E search_term ''tm2'' 3 else Inr []) of
        Inl e \<Rightarrow> Inl e
      | Inr tm2_matches \<Rightarrow>
          (case (if target_system \<in> {''biomedicine'', ''both''}
                 then search_icd11_codes E search_term ''biomedicine'' 3 else Inr []) of
             Inl e \<Rightarrow> Inl e
           | Inr bio_matches \<Rightarrow>
               (case search_loop E namaste_details target_system ts of
                  Inl e \<Rightarrow> Inl e
                | Inr rest \<Rightarrow>
                    Inr (score_matches E namaste_details tm2_matches @
                         score_matches E namaste_details bio_matches @ rest))))"

text \<open>\<open>sorted(results, key=lambda x: x['confidence'], reverse=True)\<close>: a stable sort.\<close>

definition sort_by_confidence :: "candidate list \<Rightarrow> candidate list" where
  "sort_by_confidence results = sort_key (\<lambda>r. - confidence r) results"

text \<open>The loop that drops every result whose key \<open>system:code\<close> has been seen.\<close>

definition result_key :: "candidate \<Rightarrow> string" where
  "result_key r = system r @ '':'' @ code r"

fun unique_results :: "string set \<Rightarrow> candidate list \<Rightarrow> candidate list" where
  "unique_results seen_codes [] = []"
| "unique_results seen_codes (r # rs) =
     (if result_key r \<notin> seen_codes
      then r # unique_results (insert (result_key r) seen_codes) rs
      else unique_results seen_codes rs)"

text \<open>
  \<open>MappingService._perform_automatic_mapping\<close>. The \<open>except\<close> branch turns every
  exception of the body into the empty list.
\<close>

definition perform_automatic_mapping :: "env \<Rightarrow> string \<Rightarrow> string \<Rightarrow> error + candidate list" where
  "perform_automatic_mapping E namaste_code target_system =
     (case get_namaste_code_details namaste_code (sample_namaste_data E) of
        None \<Rightarrow> Inr []
      | Some namaste_details \<Rightarrow>
          (case search_loop E namaste_details target_system
                  (extract_search_terms E namaste_details) of
             Inl e \<Rightarrow> Inr []
           | Inr results \<Rightarrow> Inr (take 5 (unique_results {} (sort_by_confidence results)))))"

text \<open>The loop over the predefined entries of a source code.\<close>

fun predefined_loop :: "env \<Rightarrow> string \<Rightarrow> mapping list \<Rightarrow> error + candidate list" where
  "predefined_loop E target_system [] = Inr []"
| "predefined_loop E target_system (m # ms) =
     (if target_system = ''both'' \<or> target_system = m_system m
      then (case (if m_system m = ''tm2''
                  then search_icd11_codes E (m_code m) ''tm2'' 1
                  else search_icd11_codes E (m_code m) ''biomedicine'' 1) of
              Inl e \<Rightarrow> Inl e
            | Inr icd_results \<Rightarrow>
                (case predefined_loop E target_system ms of
                   Inl e \<Rightarrow> Inl e
                 | Inr rest \<Rightarrow>
                     Inr ((case icd_results of
                             [] \<Rightarrow> []
                           | r # _ \<Rightarrow> [tag r (m_equivalence m) ''predefined'' 0.9]) @ rest)))
      else predefined_loop E target_system ms)"

text \<open>
  \<open>MappingService.translate_namaste_to_icd11\<close>. The function returns a list on every
  path: its \<open>except\<close> branch logs the exception and returns the empty list.
\<close>

definition translate_namaste_to_icd11 :: "env \<Rightarrow> string \<Rightarrow> string \<Rightarrow> error + candidate list" where
  "translate_namaste_to_icd11 E namaste_code target_system =
     (case map_of predefined_mappings namaste_code of
        Some predefined \<Rightarrow>
          (case predefined_loop E target_system predefined of
             Inl e \<Rightarrow> Inr []
           | Inr results \<Rightarrow> Inr results)
      | None \<Rightarrow>
          (case perform_automatic_mapping E namaste_code target_system of
             Inl e \<Rightarrow> Inr []
           | Inr results \<Rightarrow> Inr results))"

section \<open>Mapping resolver: reverse translation\<close>

text \<open>The scan of the predefined table for entries that name the target code.\<close>

definition reverse_predefined :: "env \<Rightarrow> string \<Rightarrow> string \<Rightarrow> candidate list" where
  "reverse_predefined E icd11_code icd11_system =
     concat (map (\<lambda>(namaste_code, mappings).
       concat (map (\<lambda>m.
         if m_system m = icd11_system \<and> m_code m = icd11_code
         then (case get_namaste_code_details namaste_code (sample_namaste_data E) of
                 None \<Rightarrow> []
               | Some namaste_details \<Rightarrow>
                   [tag namaste_details (m_equivalence m) ''predefined'' 0.9])
         else []) mappings)) predefined_mappings)"

text \<open>The loop over the matches of one free-text query of the source vocabulary.\<close>

fun score_reverse_matches :: "env \<Rightarrow> entry \<Rightarrow> entry list \<Rightarrow> candidate list" where
  "score_reverse_matches E icd_details [] = []"
| "score_reverse_matches E icd_details (m # ms) =
     (let c = calculate_similarity E m icd_details
      in if c > 0.3
         then tag m (determine_equivalence (Num c)) ''automatic_reverse'' c #
              score_reverse_matches E icd_details ms
         else score_reverse_matches E icd_details ms)"

definition reverse_automatic :: "env \<Rightarrow> entry \<Rightarrow> candidate list" where
  "reverse_automatic E icd_details =
     concat (map (\<lambda>search_term.
       if search_term \<noteq> []
       then score_reverse_matches E icd_details
              (search_namaste_codes search_term (sample_namaste_data E) 5)
       else []) [display icd_details, definition_text icd_details])"

text \<open>\<open>MappingService.reverse_translate_icd11_to_namaste\<close>.\<close>

definition reverse_translate_icd11_to_namaste :: "env \<Rightarrow> string \<Rightarrow> string \<Rightarrow> error + candidate list" where
  "reverse_translate_icd11_to_namaste E icd11_code icd11_system =
     (let results = reverse_predefined E icd11_code icd11_system
      in if results \<noteq> [] then Inr (sort_by_confidence results)
         else (case get_icd11_code_details E icd11_code of
                 Inl e \<Rightarrow> Inr []
               | Inr None \<Rightarrow> Inr (sort_by_confidence results)
               | Inr (Some icd_details) \<Rightarrow>
                   Inr (sort_by_confidence (results @ reverse_automatic E icd_details))))"

section \<open>Mapping validation\<close>

text \<open>
  \<open>MappingService.validate_mapping\<close> returns a dictionary: either \<open>valid = False\<close> with a
  reason, or the full verdict.
\<close>

record verdict =
  valid :: bool
  v_confidence :: real
  v_equivalence :: string
  recommendation :: string
  namaste_details :: entry
  icd11_details :: entry

datatype validation = Rejected string | Verdict verdict

fun error_text :: "error \<Rightarrow> string" where
  "error_text (ProviderFailure msg) = msg"

definition validate_mapping :: "env \<Rightarrow> string \<Rightarrow> string \<Rightarrow> string \<Rightarrow> validation" where
  "validate_mapping E namaste_code icd11_code icd11_system =
     (case get_namaste_code_details namaste_code (sample_namaste_data E) of
        None \<Rightarrow> Rejected ''NAMASTE code not found''
      | Some nd \<Rightarrow>
          (case search_icd11_codes E icd11_code icd11_system 1 of
             Inl e \<Rightarrow> Rejected (''Validation error: '' @ error_text e)
           | Inr [] \<Rightarrow> Rejected ''ICD-11 code not found''
           | Inr (icd # _) \<Rightarrow>
               (let c = calculate_similarity E nd icd
                in Verdict
                     \<lparr>valid = (c > 0.3), v_confidence = c,
                      v_equivalence = determine_equivalence (Num c),
                      recommendation =
                        (if c > 0.6 then ''Accept'' else if c > 0.3 then ''Review'' else ''Reject''),
                      namaste_details = nd, icd11_details = icd\<rparr>)))"

section \<open>ConceptMap assembly\<close>

text \<open>
  Modelled from the spec: the formatting of a confidence "to two decimals" (section
  4.5), which the source leaves to the interpreter's \<open>f"{x:.2f}"\<close>. \<open>format_2f\<close> rounds the
  exact value to the nearest hundredth, an exact tie to the even digit. It is the
  formatter of the concrete services below and agrees with the interpreter away from
  ties; at a tie of the exact value (0.525) the interpreter's result depends on the
  binary float.
\<close>

fun digits :: "nat \<Rightarrow> string" where
  "digits n =
     (if n < 10 then [''0123456789'' ! n]
      else digits (n div 10) @ [''0123456789'' ! (n mod 10)])"

definition round_half_even :: "real \<Rightarrow> int" where
  "round_half_even x =
     (let f = \<lfloor>x\<rfloor>; d = x - of_int f
      in if d < 1 / 2 then f else if d > 1 / 2 then f + 1 else if even f then f else f + 1)"

definition format_2f :: "real \<Rightarrow> string" where
  "format_2f x =
     (let n = nat (round_half_even (\<bar>x\<bar> * 100))
      in (if x < 0 then ''-'' else []) @ digits (n div 100) @ ''.'' @
         [''0123456789'' ! (n mod 100 div 10), ''0123456789'' ! (n mod 10)])"

record target_record =
  t_code :: string
  t_display :: string
  t_equivalence :: string
  t_comment :: string

record element =
  e_code :: string
  e_display :: string
  e_target :: "target_record list"

record concept_map_group =
  g_source :: string
  g_sourceVersion :: string
  g_target :: string
  g_targetVersion :: string
  g_element :: "element list"

text \<open>
  The ConceptMap resource. Of its constant descriptive fields only the identifying ones
  are kept; \<open>cm_id\<close> and \<open>cm_date\<close> come from \<open>uuid.uuid4()\<close> and \<open>datetime.now()\<close>.
\<close>

record concept_map =
  cm_id :: string
  cm_url :: string
  cm_version :: string
  cm_name :: string
  cm_status :: string
  cm_date :: string
  cm_sourceCanonical :: string
  cm_group :: "concept_map_group list"

definition code_system_url :: string where
  "code_system_url = ''http://terminology.mohayush.gov.in/namaste''"

definition code_system_version :: string where
  "code_system_version = ''1.0.0''"

definition icd11_biomedicine_url :: string where
  "icd11_biomedicine_url = ''http://id.who.int/icd/release/11/2023-01/mms''"

definition icd11_tm2_url :: string where
  "icd11_tm2_url = ''http://id.who.int/icd/release/11/2023-01/tm2''"

definition concept_map_url :: string where
  "concept_map_url = ''http://terminology.mohayush.gov.in/ConceptMap/namaste-to-icd11''"

definition target_of :: "env \<Rightarrow> candidate \<Rightarrow> target_record" where
  "target_of E m =
     \<lparr>t_code = code m, t_display = display m, t_equivalence = equivalence m,
      t_comment = ''Mapped via '' @ mappingMethod m @ '' method with confidence '' @
                  format_confidence E (confidence m)\<rparr>"

text \<open>The element a row contributes to one group: none when the translation is empty.\<close>

definition group_element :: "env \<Rightarrow> row \<Rightarrow> string \<Rightarrow> error + element list" where
  "group_element E r target_system =
     (case translate_namaste_to_icd11 E (row_code r) target_system of
        Inl e \<Rightarrow> Inl e
      | Inr mappings \<Rightarrow>
          Inr (if mappings \<noteq> []
               then [\<lparr>e_code = row_code r, e_display = row_display r,
                      e_target = map (target_of E) mappings\<rparr>]
               else []))"

text \<open>
  The loop over the rows; the state is the pair of element lists of the two groups.
\<close>

fun assemble_rows :: "env \<Rightarrow> row list \<Rightarrow> element list \<times> element list \<Rightarrow>
    error + element list \<times> element list" where
  "assemble_rows E [] (tm2_elements, bio_elements) = Inr (tm2_elements, bio_elements)"
| "assemble_rows E (r # rs) (tm2_elements, bio_elements) =
     (case group_element E r ''tm2'' of
        Inl e \<Rightarrow> Inl e
      | Inr tm2_new \<Rightarrow>
          (case group_element E r ''biomedicine'' of
             Inl e \<Rightarrow> Inl e
           | Inr bio_new \<Rightarrow>
               assemble_rows E rs (tm2_elements @ tm2_new, bio_elements @ bio_new)))"

text \<open>
  \<open>MappingService.generate_concept_map\<close>. \<open>uuid_hex\<close> stands for
  \<open>uuid.uuid4().hex[:8]\<close> and \<open>now\<close> for \<open>datetime.now()\<close>; an exception is raised again.
\<close>

definition generate_concept_map :: "env \<Rightarrow> string \<Rightarrow> string \<Rightarrow> row list \<Rightarrow> error + concept_map" where
  "generate_concept_map E uuid_hex now namaste_data =
     (case assemble_rows E namaste_data ([], []) of
        Inl e \<Rightarrow> Inl e
      | Inr (tm2_elements, bio_elements) \<Rightarrow>
          Inr \<lparr>cm_id = ''namaste-icd11-map-'' @ uuid_hex,
               cm_url = concept_map_url,
               cm_version = ''1.0.0'',
               cm_name = ''NAMASTEToICD11ConceptMap'',
               cm_status = ''active'',
               cm_date = now,
               cm_sourceCanonical = code_system_url,
               cm_group =
                 [\<lparr>g_source = code_system_url, g_sourceVersion = code_system_version,
                   g_target = icd11_tm2_url, g_targetVersion = ''2023-01'',
                   g_element = tm2_elements\<rparr>,
                  \<lparr>g_source = code_system_url, g_sourceVersion = code_system_version,
                   g_target = icd11_biomedicine_url, g_targetVersion = ''2023-01'',
                   g_element = bio_elements\<rparr>]\<rparr>)"

section \<open>The target classification service in demo mode\<close>

text \<open>
  \<open>ICD11Service\<close> without credentials answers every request from its mock data
  (\<open>_get_mock_icd11_data\<close>), whatever the query and the limit.
\<close>

definition mock_tm2_entities :: "entry list" where
  "mock_tm2_entities =
    [\<lparr>code = ''TM2.01'', display = ''Traditional Medicine Pattern - Constitutional Type'',
      definition_text = ''Traditional medicine constitutional pattern disorders'',
      system = icd11_tm2_url, category = [], bodySystem = []\<rparr>,
     \<lparr>code = ''TM2.02'', display = ''Traditional Medicine Pattern - Digestive Disorders'',
      definition_text = ''Traditional medicine digestive pattern disorders'',
      system = icd11_tm2_url, category = [], bodySystem = []\<rparr>,
     \<lparr>code = ''TM2.03'', display = ''Traditional Medicine Pattern - Neurological Disorders'',
      definition_text = ''Traditional medicine neurological pattern disorders'',
      system = icd11_tm2_url, category = [], bodySystem = []\<rparr>]"

definition mock_biomedicine_entities :: "entry list" where
  "mock_biomedicine_entities =
    [\<lparr>code = ''K59.0'', display = ''Constipation'',
      definition_text = ''Difficulty in passing stools or infrequent bowel movements'',
      system = icd11_biomedicine_url, category = [], bodySystem = []\<rparr>,
     \<lparr>code = ''G44.2'', display = ''Tension-type headache'',
      definition_text = ''Primary headache disorder characterized by bilateral pain'',
      system = icd11_biomedicine_url, category = [], bodySystem = []\<rparr>]"

definition demo_search_icd11_codes :: "string \<Rightarrow> string \<Rightarrow> nat \<Rightarrow> error + entry list" where
  "demo_search_icd11_codes search_term sys limit =
     Inr ((if sys \<in> {''tm2'', ''both''} then mock_tm2_entities else []) @
          (if sys \<in> {''biomedicine'', ''both''} then mock_biomedicine_entities else []))"

definition demo_get_icd11_code_details :: "string \<Rightarrow> error + entry option" where
  "demo_get_icd11_code_details code_id =
     (if py_in ''tm2'' code_id \<or> py_in ''mms'' code_id
      then Inr (Some \<lparr>code = [], display = [], definition_text = [],
                      system = (if py_in ''tm2'' code_id then icd11_tm2_url
                                else icd11_biomedicine_url),
                      category = [], bodySystem = []\<rparr>)
      else Inr None)"

section \<open>A text-similarity ratio\<close>

text \<open>
  Modelled from the spec: the text-similarity ratio, which the source takes from the
  Python standard library (\<open>difflib.SequenceMatcher.ratio\<close>) and which is not among the
  repository's files. The specification (section 4.1) asks for "a normalized
  edit-distance/longest-common-subsequence-based measure producing a value in [0,1]
  where 1.0 means identical strings". \<open>ratio_contract\<close> is that contract;
  \<open>lcs_ratio\<close> is one such measure, twice the length of a longest common subsequence over
  the total length, used where a concrete ratio is needed.
\<close>

definition ratio_contract :: "(string \<Rightarrow> string \<Rightarrow> real) \<Rightarrow> bool" where
  "ratio_contract ratio = ((\<forall>a b. 0 \<le> ratio a b \<and> ratio a b \<le> 1) \<and> (\<forall>a. ratio a a = 1))"

fun lcs :: "string \<Rightarrow> string \<Rightarrow> nat" where
  "lcs [] ys = 0"
| "lcs (x # xs) [] = 0"
| "lcs (x # xs) (y # ys) =
     (if x = y then Suc (lcs xs ys) else max (lcs xs (y # ys)) (lcs (x # xs) ys))"

definition lcs_ratio :: "string \<Rightarrow> string \<Rightarrow> real" where
  "lcs_ratio a b =
     (if a = [] \<and> b = [] then 1 else 2 * real (lcs a b) / real (length a + length b))"

text \<open>The service as it runs in demo mode, with the stand-in ratio.\<close>

definition demo_env :: env where
  "demo_env =
     \<lparr>sequence_ratio = lcs_ratio, set_order = remdups,
      search_icd11_codes = demo_search_icd11_codes,
      get_icd11_code_details = demo_get_icd11_code_details,
      sample_namaste_data = create_sample_namaste_data,
      format_confidence = format_2f\<rparr>"

section \<open>The pair a candidate is identified by\<close>

text \<open>The (target system, target code) pair of a candidate.\<close>

definition target_pair :: "candidate \<Rightarrow> string \<times> string" where
  "target_pair r = (system r, code r)"

section \<open>The rule tables of search-term extraction\<close>

text \<open>
  The three groups of keyword rules of section 4.2 of the specification, as tables of
  (keyword, terms to add) in the order in which the source tests them, and the reading of
  a table under which the first rule whose keyword occurs in the text contributes its
  terms and no later rule does.
\<close>

definition category_rules :: "(string \<times> string list) list" where
  "category_rules =
     [(''digestive'', [''digestion'', ''stomach'', ''gastric'']),
      (''constitutional'', [''constitutional'', ''temperament'', ''pattern'']),
      (''neurological'', [''neurological'', ''nervous'', ''brain''])]"

definition body_system_rules :: "(string \<times> string list) list" where
  "body_system_rules =
     [(''gastrointestinal'', [''gastrointestinal'', ''digestive'']),
      (''nervous'', [''nervous'', ''neurological''])]"

definition display_rules :: "(string \<times> string list) list" where
  "display_rules =
     [(''headache'', [''headache'', ''cephalgia'']),
      (''indigestion'', [''indigestion'', ''dyspepsia'']),
      (''dosha'', [''constitutional'', ''pattern''])]"

fun first_match :: "(string \<times> string list) list \<Rightarrow> string \<Rightarrow> string list" where
  "first_match [] text = []"
| "first_match ((keyword, terms) # rules) text =
     (if py_in keyword text then terms else first_match rules text)"

text \<open>The main term of an entry: the display before any parenthesis, lower-cased, stripped.\<close>

definition main_term :: "entry \<Rightarrow> string" where
  "main_term e = strip (before_paren (lower (display e)))"

section \<open>The elements one row contributes to a group\<close>

text \<open>
  What the assembly loop appends to the group of a target system for one row: the
  element list of \<open>group_element\<close>, and nothing when the translation raises.
\<close>

definition row_elements :: "env \<Rightarrow> string \<Rightarrow> row \<Rightarrow> element list" where
  "row_elements E target_system r =
     (case group_element E r target_system of Inl e \<Rightarrow> [] | Inr els \<Rightarrow> els)"

section \<open>The provider's sub-system stamp\<close>

text \<open>
  \<open>ICD11Service._search_tm2_codes\<close> writes \<open>self.icd11_tm2_url\<close> into the \<open>system\<close> field
  of every entry it returns, and \<open>_search_biomedicine_codes\<close> writes
  \<open>self.icd11_biomedicine_url\<close>; the mock data of the demo mode carry the same two URLs.
  \<open>stamps_sub_system\<close> states this of the provider of an environment: whatever a search
  in one sub-system returns is stamped with the URL of that sub-system.
\<close>

definition stamps_sub_system :: "env \<Rightarrow> bool" where
  "stamps_sub_system E =
     (\<forall>search_term limit rs r.
        (search_icd11_codes E search_term ''tm2'' limit = Inr rs \<and> r \<in> set rs \<longrightarrow>
           system r = icd11_tm2_url) \<and>
        (search_icd11_codes E search_term ''biomedicine'' limit = Inr rs \<and> r \<in> set rs \<longrightarrow>
           system r = icd11_biomedicine_url))"


section \<open>Concrete collaborators for the examples\<close>

text \<open>A provider whose every call raises.\<close>

definition failing_env :: env where
  "failing_env =
     \<lparr>sequence_ratio = lcs_ratio, set_order = remdups,
      search_icd11_codes = (\<lambda>search_term sys limit. Inl (ProviderFailure ''timeout'')),
      get_icd11_code_details = (\<lambda>code_id. Inl (ProviderFailure ''timeout'')),
      sample_namaste_data = create_sample_namaste_data,
      format_confidence = format_2f\<rparr>"

text \<open>An entry of the sample vocabulary.\<close>

definition sample_entry :: entry where
  "sample_entry =
     \<lparr>code = ''NAM006'', display = ''Shirahshula (Headache)'',
      definition_text = ''Head pain due to various doshic imbalances'',
      system = ''Ayurveda'', category = ''Neurological Disorders'',
      bodySystem = ''Nervous System''\<rparr>"

text \<open>A provider that answers every search with the queried code and no text.\<close>

definition untexted_env :: env where
  "untexted_env =
     \<lparr>sequence_ratio = lcs_ratio, set_order = remdups,
      search_icd11_codes = (\<lambda>search_term sys limit.
        Inr [\<lparr>code = search_term, display = [], definition_text = [], system = sys,
              category = [], bodySystem = []\<rparr>]),
      get_icd11_code_details = (\<lambda>code_id. Inr None),
      sample_namaste_data = create_sample_namaste_data,
      format_confidence = format_2f\<rparr>"

text \<open>The details of the sample code \<open>NAM002\<close>, and the entry the text-less provider returns.\<close>

definition vata_entry :: entry where
  "vata_entry =
     \<lparr>code = ''NAM002'', display = ''Vata Dosha Imbalance'',
      definition_text =
        ''Constitutional imbalance of Vata dosha affecting movement and nervous system'',
      system = ''Ayurveda'', category = ''Constitutional Disorders'',
      bodySystem = ''Nervous System''\<rparr>"

definition untexted_z733 :: entry where
  "untexted_z733 =
     \<lparr>code = ''Z73.3'', display = [], definition_text = [], system = ''biomedicine'',
      category = [], bodySystem = []\<rparr>"

text \<open>
  A small in-memory service: a source vocabulary with one code that has no predefined
  entry, and a provider that answers every search with the same few entries.
\<close>

definition small_vocabulary :: "row list" where
  "small_vocabulary =
     [\<lparr>row_code = ''X001'', row_display = ''Headache'', row_definition = ''Head pain'',
       row_system = ''Ayurveda'', row_category = ''General'',
       row_body_system = ''Unknown''\<rparr>]"

definition small_tm2_entities :: "entry list" where
  "small_tm2_entities =
     [\<lparr>code = ''A'', display = ''Headache'', definition_text = ''Head pain'',
       system = icd11_tm2_url, category = [], bodySystem = []\<rparr>,
      \<lparr>code = ''B'', display = ''Headache'', definition_text = [],
       system = icd11_tm2_url, category = [], bodySystem = []\<rparr>,
      \<lparr>code = ''C'', display = [], definition_text = [],
       system = icd11_tm2_url, category = [], bodySystem = []\<rparr>]"

definition small_biomedicine_entities :: "entry list" where
  "small_biomedicine_entities =
     [\<lparr>code = ''F'', display = ''Headache'', definition_text = ''Head pain disorder'',
       system = icd11_biomedicine_url, category = [], bodySystem = []\<rparr>,
      \<lparr>code = ''G'', display = ''Headache syndrome'', definition_text = ''Head pain'',
       system = icd11_biomedicine_url, category = [], bodySystem = []\<rparr>,
      \<lparr>code = ''H'', display = ''Head'', definition_text = ''Head'',
       system = icd11_biomedicine_url, category = [], bodySystem = []\<rparr>,
      \<lparr>code = ''I'', display = ''Headache'', definition_text = ''Head pain'',
       system = icd11_biomedicine_url, category = [], bodySystem = []\<rparr>]"

definition small_env :: env where
  "small_env =
     \<lparr>sequence_ratio = lcs_ratio, set_order = remdups,
      search_icd11_codes = (\<lambda>search_term sys limit.
        Inr ((if sys \<in> {''tm2'', ''both''} then small_tm2_entities else []) @
             (if sys \<in> {''biomedicine'', ''both''} then small_biomedicine_entities else []))),
      get_icd11_code_details = (\<lambda>code_id. Inr None),
      sample_namaste_data = small_vocabulary,
      format_confidence = format_2f\<rparr>"


definition x001_entry :: entry where
  "x001_entry =
     \<lparr>code = ''X001'', display = ''Headache'', definition_text = ''Head pain'',
      system = ''Ayurveda'', category = ''General'', bodySystem = ''Unknown''\<rparr>"


text \<open>An entry whose display names both a headache and a dosha.\<close>

definition headache_dosha_entry :: entry where
  "headache_dosha_entry =
     \<lparr>code = ''X002'', display = ''Pitta Dosha Headache'',
      definition_text = ''Headache from aggravated Pitta'',
      system = ''Ayurveda'', category = ''General'', bodySystem = ''Unknown''\<rparr>"

text \<open>
  Providers that fail in part: the demo service and the small service with every
  biomedicine search raising and every tm2 search answered.
\<close>

definition half_env :: env where
  "half_env =
     demo_env\<lparr>search_icd11_codes := (\<lambda>search_term sys limit.
       if sys = ''biomedicine'' then Inl (ProviderFailure ''timeout'')
       else demo_search_icd11_codes search_term sys limit)\<rparr>"

definition small_half_env :: env where
  "small_half_env =
     small_env\<lparr>search_icd11_codes := (\<lambda>search_term sys limit.
       if sys = ''biomedicine'' then Inl (ProviderFailure ''timeout'')
       else Inr small_tm2_entities)\<rparr>"

text \<open>
  A provider that ignores the sub-system of a search and answers every request with the
  tm2 mock data.
\<close>

definition unstamped_env :: env where
  "unstamped_env =
     demo_env\<lparr>search_icd11_codes := (\<lambda>search_term sys limit. Inr mock_tm2_entities)\<rparr>"

section \<open>The resolver returns a list on every path\<close>

lemma translate_returns: "\<exists>rs. translate_namaste_to_icd11 E c t = Inr rs"
  by (simp add: translate_namaste_to_icd11_def perform_automatic_mapping_def
      split: option.splits sum.splits)

lemma reverse_returns: "\<exists>rs. reverse_translate_icd11_to_namaste E c s = Inr rs"
  by (simp add: reverse_translate_icd11_to_namaste_def Let_def split: option.splits sum.splits)

lemma predefined_loop_cong:
  "search_icd11_codes E' = search_icd11_codes E \<Longrightarrow>
   predefined_loop E' t ms = predefined_loop E t ms"
  by (induction ms) (auto cong: sum.case_cong)

section \<open>Scoring, sorting and deduplication in the automatic path\<close>

lemma score_matches_results:
  "r \<in> set (score_matches E nd ms) \<Longrightarrow>
   confidence r > 0.3 \<and> mappingMethod r = ''automatic'' \<and>
   equivalence r = determine_equivalence (Num (confidence r))"
  by (induction ms) (auto simp: Let_def tag_def split: if_splits)

lemma search_loop_results:
  "search_loop E nd t ts = Inr rs \<Longrightarrow> r \<in> set rs \<Longrightarrow>
   confidence r > 0.3 \<and> mappingMethod r = ''automatic'' \<and>
   equivalence r = determine_equivalence (Num (confidence r))"
proof (induction ts arbitrary: rs)
  case Nil
  then show ?case by simp
next
  case (Cons q ts)
  define fa where "fa = (if t \<in> {''tm2'', ''both''}
     then search_icd11_codes E q ''tm2'' 3 else Inr [])"
  define fb where "fb = (if t \<in> {''biomedicine'', ''both''}
     then search_icd11_codes E q ''biomedicine'' 3 else Inr [])"
  have eq: "(case fa of Inl e \<Rightarrow> Inl e
      | Inr a \<Rightarrow> (case fb of Inl e \<Rightarrow> Inl e
          | Inr b \<Rightarrow> (case search_loop E nd t ts of Inl e \<Rightarrow> Inl e
              | Inr rest \<Rightarrow> Inr (score_matches E nd a @ score_matches E nd b @ rest)))) = Inr rs"
    using Cons.prems(1)[unfolded search_loop.simps] unfolding fa_def fb_def .
  then obtain a where a: "fa = Inr a" by (cases fa) auto
  with eq obtain b where b: "fb = Inr b" by (cases fb) auto
  with eq a obtain rest where rest: "search_loop E nd t ts = Inr rest"
    by (cases "search_loop E nd t ts") auto
  with eq a b have rs: "rs = score_matches E nd a @ score_matches E nd b @ rest"
    by simp
  from rs Cons.prems(2) consider "r \<in> set (score_matches E nd a)"
    | "r \<in> set (score_matches E nd b)" | "r \<in> set rest" by auto
  then show ?case
  proof cases
    case 1
    then show ?thesis by (rule score_matches_results)
  next
    case 2
    then show ?thesis by (rule score_matches_results)
  next
    case 3
    with Cons.IH[OF rest] show ?thesis by simp
  qed
qed

lemma set_sort_by_confidence: "set (sort_by_confidence rs) = set rs"
  by (simp add: sort_by_confidence_def)

lemma sorted_sort_by_confidence:
  "sorted_wrt (\<lambda>a b. confidence a \<ge> confidence b) (sort_by_confidence rs)"
proof -
  have "sorted (map (\<lambda>r. - confidence r) (sort_by_confidence rs))"
    by (simp add: sort_by_confidence_def)
  then show ?thesis by (simp add: sorted_map)
qed

lemma unique_results_subset: "set (unique_results seen rs) \<subseteq> set rs"
  by (induction rs arbitrary: seen) auto

lemma unique_results_sorted:
  "sorted_wrt P rs \<Longrightarrow> sorted_wrt P (unique_results seen rs)"
proof (induction rs arbitrary: seen)
  case Nil
  then show ?case by simp
next
  case (Cons r rs)
  then show ?case
    using unique_results_subset[of "insert (result_key r) seen" rs] by auto
qed





section \<open>The small in-memory service, evaluated\<close>

lemma small_env_forward:
  "map (\<lambda>r. (system r, code r, confidence r, mappingMethod r))
     (projr (translate_namaste_to_icd11 small_env ''X001'' ''both'')) =
   [(icd11_tm2_url, ''A'', 21 / 25, ''automatic''),
    (icd11_biomedicine_url, ''I'', 21 / 25, ''automatic''),
    (icd11_biomedicine_url, ''F'', 53 / 75, ''automatic''),
    (icd11_biomedicine_url, ''G'', 87 / 125, ''automatic''),
    (icd11_biomedicine_url, ''H'', 20 / 39, ''automatic'')]"
  by code_simp


section \<open>Properties of the equivalence classifier\<close>

text \<open>
  Claim C7, as amended. The equivalence classifier is a total function of the
  confidence value with no error case: it always returns one of the four labels. For
  every float that is not the not-a-number value (the infinities included) it returns
  \<open>equivalent\<close> exactly when the confidence is at least 0.8, \<open>wider\<close> exactly when it is at
  least 0.6 and below 0.8, \<open>narrower\<close> exactly when it is at least 0.4 and below 0.6, and
  \<open>related\<close> exactly when it is below 0.4.
\<close>

theorem determine_equivalence_thresholds:
  assumes "c \<noteq> NaN"
  shows "(determine_equivalence c = ''equivalent'' \<longleftrightarrow> float_ge c 0.8) \<and>
         (determine_equivalence c = ''wider'' \<longleftrightarrow> float_ge c 0.6 \<and> float_lt c 0.8) \<and>
         (determine_equivalence c = ''narrower'' \<longleftrightarrow> float_ge c 0.4 \<and> float_lt c 0.6) \<and>
         (determine_equivalence c = ''related'' \<longleftrightarrow> float_lt c 0.4) \<and>
         determine_equivalence c' \<in> {''equivalent'', ''wider'', ''narrower'', ''related''}"
  using assms by (cases c) (simp_all add: determine_equivalence_def)

theorem determine_equivalence_thresholds_witness:
  "Num 0.8 \<noteq> NaN \<and> PosInf \<noteq> NaN \<and>
   determine_equivalence (Num 0.8) = ''equivalent'' \<and> float_ge (Num 0.8) 0.8 \<and>
   determine_equivalence (Num 0.6) = ''wider'' \<and>
   determine_equivalence (Num 0.4) = ''narrower'' \<and>
   determine_equivalence (Num 0.39) = ''related'' \<and> float_lt (Num 0.39) 0.4 \<and>
   determine_equivalence PosInf = ''equivalent'' \<and>
   determine_equivalence NaN \<in> {''equivalent'', ''wider'', ''narrower'', ''related''}"
proof -
  have a: "Num 0.8 \<noteq> NaN" and b: "Num 0.6 \<noteq> NaN" and c: "Num 0.4 \<noteq> NaN"
    and d: "Num 0.39 \<noteq> NaN" and e: "PosInf \<noteq> NaN"
    by simp_all
  from determine_equivalence_thresholds[OF a, of NaN]
    determine_equivalence_thresholds[OF b, of NaN]
    determine_equivalence_thresholds[OF c, of NaN]
    determine_equivalence_thresholds[OF d, of NaN]
    determine_equivalence_thresholds[OF e, of NaN]
  show ?thesis by simp
qed

text \<open>
  Claim C7 as stated (for every float, \<open>related\<close> exactly when the confidence is below
  0.4) fails at the not-a-number value: every comparison with it is false, the code
  falls through to its last branch and returns \<open>related\<close>, yet the value is not below 0.4.
\<close>

theorem determine_equivalence_nan_counterexample:
  "determine_equivalence NaN = ''related'' \<and> \<not> float_lt NaN 0.4"
  by (simp add: determine_equivalence_def)

section \<open>Provider failures\<close>

text \<open>
  One raising search is enough to make a loop raise: the loops stop at the first call that
  raises, and every selected call is reached unless an earlier one has raised already.
\<close>

lemma predefined_loop_fails:
  "m \<in> set ms \<Longrightarrow> t = ''both'' \<or> t = m_system m \<Longrightarrow>
   isl (search_icd11_codes E (m_code m)
          (if m_system m = ''tm2'' then ''tm2'' else ''biomedicine'') 1) \<Longrightarrow>
   isl (predefined_loop E t ms)"
proof (induction ms)
  case Nil
  then show ?case by simp
next
  case (Cons x xs)
  show ?case
  proof (cases "m = x")
    case True
    with Cons.prems(2,3) obtain a where
      "(if m_system x = ''tm2'' then search_icd11_codes E (m_code x) ''tm2'' 1
          else search_icd11_codes E (m_code x) ''biomedicine'' 1) = Inl a"
      by (auto simp: isl_def split: if_splits)
    with True Cons.prems(2) show ?thesis by simp
  next
    case False
    with Cons.prems(1) have "m \<in> set xs" by simp
    from Cons.IH[OF this Cons.prems(2,3)] obtain e where
      loop: "predefined_loop E t xs = Inl e"
      by (auto simp: isl_def)
    show ?thesis
    proof (cases "t = ''both'' \<or> t = m_system x")
      case False
      with loop show ?thesis by simp
    next
      case sel: True
      show ?thesis
      proof (cases "if m_system x = ''tm2'' then search_icd11_codes E (m_code x) ''tm2'' 1
          else search_icd11_codes E (m_code x) ''biomedicine'' 1")
        case (Inl a)
        with sel show ?thesis by simp
      next
        case (Inr b)
        with sel loop show ?thesis by simp
      qed
    qed
  qed
qed

lemma search_loop_fails:
  "q \<in> set ts \<Longrightarrow>
   (t \<in> {''tm2'', ''both''} \<and> isl (search_icd11_codes E q ''tm2'' 3)) \<or>
   (t \<in> {''biomedicine'', ''both''} \<and> isl (search_icd11_codes E q ''biomedicine'' 3)) \<Longrightarrow>
   isl (search_loop E nd t ts)"
proof (induction ts)
  case Nil
  then show ?case by simp
next
  case (Cons x xs)
  define fa where "fa = (if t \<in> {''tm2'', ''both''}
     then search_icd11_codes E x ''tm2'' 3 else Inr [])"
  define fb where "fb = (if t \<in> {''biomedicine'', ''both''}
     then search_icd11_codes E x ''biomedicine'' 3 else Inr [])"
  have unfold: "search_loop E nd t (x # xs) =
      (case fa of Inl e \<Rightarrow> Inl e
       | Inr a \<Rightarrow> (case fb of Inl e \<Rightarrow> Inl e
          | Inr b \<Rightarrow> (case search_loop E nd t xs of Inl e \<Rightarrow> Inl e
              | Inr rest \<Rightarrow> Inr (score_matches E nd a @ score_matches E nd b @ rest))))"
    unfolding fa_def fb_def by (rule search_loop.simps)
  have key: "isl (search_loop E nd t (x # xs))"
    if "isl fa \<or> isl fb \<or> isl (search_loop E nd t xs)"
    using that unfolding unfold
    by (cases fa; cases fb; cases "search_loop E nd t xs"; simp)
  show ?case
  proof (cases "q = x")
    case True
    from Cons.prems(2) have "isl fa \<or> isl fb"
      unfolding True by (elim disjE conjE; simp only: fa_def fb_def if_True simp_thms)
    then show ?thesis using key by blast
  next
    case False
    with Cons.prems(1) have "q \<in> set xs" by simp
    from Cons.IH[OF this Cons.prems(2)] show ?thesis using key by blast
  qed
qed

text \<open>
  Claim C1, as amended. The resolver never propagates a failure of the Terminology
  Provider: forward and reverse translation return a list on every path. Whenever one of
  the provider calls that a translation makes raises, the result is the empty list,
  whatever the other calls answer: on the predefined path, the search for any table entry
  that the target system selects; on the automatic path, the search for any search term in
  any requested sub-system; on the reverse path, the lookup of the target entry, which is
  made when the predefined table names no source code for it. A provider failure, even a
  partial one, is therefore indistinguishable from "nothing found".
\<close>

theorem provider_failure_returns_empty_list:
  "(\<exists>rs. translate_namaste_to_icd11 E c t = Inr rs) \<and>
   (\<exists>rs. reverse_translate_icd11_to_namaste E icd_code s = Inr rs) \<and>
   (map_of predefined_mappings c = Some ms \<and> m \<in> set ms \<and>
    (t = ''both'' \<or> t = m_system m) \<and>
    isl (search_icd11_codes E (m_code m)
           (if m_system m = ''tm2'' then ''tm2'' else ''biomedicine'') 1) \<longrightarrow>
      translate_namaste_to_icd11 E c t = Inr []) \<and>
   (map_of predefined_mappings c = None \<and>
    get_namaste_code_details c (sample_namaste_data E) = Some nd \<and>
    q \<in> set (extract_search_terms E nd) \<and>
    ((t \<in> {''tm2'', ''both''} \<and> isl (search_icd11_codes E q ''tm2'' 3)) \<or>
     (t \<in> {''biomedicine'', ''both''} \<and> isl (search_icd11_codes E q ''biomedicine'' 3))) \<longrightarrow>
      translate_namaste_to_icd11 E c t = Inr []) \<and>
   (reverse_predefined E icd_code s = [] \<and> isl (get_icd11_code_details E icd_code) \<longrightarrow>
      reverse_translate_icd11_to_namaste E icd_code s = Inr [])"
proof -
  have pre: "translate_namaste_to_icd11 E c t = Inr []"
    if "map_of predefined_mappings c = Some ms" and "m \<in> set ms"
      and "t = ''both'' \<or> t = m_system m"
      and "isl (search_icd11_codes E (m_code m)
           (if m_system m = ''tm2'' then ''tm2'' else ''biomedicine'') 1)"
  proof -
    from predefined_loop_fails[OF that(2,3,4)] obtain e where "predefined_loop E t ms = Inl e"
      by (auto simp: isl_def)
    with that(1) show ?thesis by (simp add: translate_namaste_to_icd11_def)
  qed
  have auto_path: "translate_namaste_to_icd11 E c t = Inr []"
    if "map_of predefined_mappings c = None"
      and "get_namaste_code_details c (sample_namaste_data E) = Some nd"
      and "q \<in> set (extract_search_terms E nd)"
      and "(t \<in> {''tm2'', ''both''} \<and> isl (search_icd11_codes E q ''tm2'' 3)) \<or>
     (t \<in> {''biomedicine'', ''both''} \<and> isl (search_icd11_codes E q ''biomedicine'' 3))"
  proof -
    from search_loop_fails[OF that(3,4)] obtain e where
      "search_loop E nd t (extract_search_terms E nd) = Inl e"
      by (auto simp: isl_def)
    with that(1,2) show ?thesis
      by (simp add: translate_namaste_to_icd11_def perform_automatic_mapping_def)
  qed
  have rev: "reverse_translate_icd11_to_namaste E icd_code s = Inr []"
    if "reverse_predefined E icd_code s = []" and "isl (get_icd11_code_details E icd_code)"
    using that by (auto simp: reverse_translate_icd11_to_namaste_def isl_def)
  have g3: "map_of predefined_mappings c = Some ms \<and> m \<in> set ms \<and>
    (t = ''both'' \<or> t = m_system m) \<and>
    isl (search_icd11_codes E (m_code m)
           (if m_system m = ''tm2'' then ''tm2'' else ''biomedicine'') 1) \<longrightarrow>
      translate_namaste_to_icd11 E c t = Inr []"
  proof
    assume h: "map_of predefined_mappings c = Some ms \<and> m \<in> set ms \<and>
      (t = ''both'' \<or> t = m_system m) \<and>
      isl (search_icd11_codes E (m_code m)
           (if m_system m = ''tm2'' then ''tm2'' else ''biomedicine'') 1)"
    show "translate_namaste_to_icd11 E c t = Inr []"
      by (rule pre[OF h[THEN conjunct1] h[THEN conjunct2, THEN conjunct1]
          h[THEN conjunct2, THEN conjunct2, THEN conjunct1]
          h[THEN conjunct2, THEN conjunct2, THEN conjunct2]])
  qed
  have g4: "map_of predefined_mappings c = None \<and>
    get_namaste_code_details c (sample_namaste_data E) = Some nd \<and>
    q \<in> set (extract_search_terms E nd) \<and>
    ((t \<in> {''tm2'', ''both''} \<and> isl (search_icd11_codes E q ''tm2'' 3)) \<or>
     (t \<in> {''biomedicine'', ''both''} \<and> isl (search_icd11_codes E q ''biomedicine'' 3))) \<longrightarrow>
      translate_namaste_to_icd11 E c t = Inr []"
  proof
    assume h: "map_of predefined_mappings c = None \<and>
      get_namaste_code_details c (sample_namaste_data E) = Some nd \<and>
      q \<in> set (extract_search_terms E nd) \<and>
      ((t \<in> {''tm2'', ''both''} \<and> isl (search_icd11_codes E q ''tm2'' 3)) \<or>
       (t \<in> {''biomedicine'', ''both''} \<and> isl (search_icd11_codes E q ''biomedicine'' 3)))"
    show "translate_namaste_to_icd11 E c t = Inr []"
      by (rule auto_path[OF h[THEN conjunct1] h[THEN conjunct2, THEN conjunct1]
          h[THEN conjunct2, THEN conjunct2, THEN conjunct1]
          h[THEN conjunct2, THEN conjunct2, THEN conjunct2]])
  qed
  have g5: "reverse_predefined E icd_code s = [] \<and> isl (get_icd11_code_details E icd_code) \<longrightarrow>
      reverse_translate_icd11_to_namaste E icd_code s = Inr []"
  proof
    assume h: "reverse_predefined E icd_code s = [] \<and> isl (get_icd11_code_details E icd_code)"
    show "reverse_translate_icd11_to_namaste E icd_code s = Inr []"
      by (rule rev[OF h[THEN conjunct1] h[THEN conjunct2]])
  qed
  show ?thesis
    by (intro conjI translate_returns reverse_returns g3 g4 g5)
qed


theorem provider_failure_returns_empty_list_witness:
  "(map_of predefined_mappings ''NAM005'' =
      Some [\<lparr>m_system = ''tm2'', m_code = ''TM2.02'', m_equivalence = ''equivalent''\<rparr>,
            \<lparr>m_system = ''biomedicine'', m_code = ''K30'', m_equivalence = ''equivalent''\<rparr>] \<and>
    (\<exists>rs. search_icd11_codes half_env ''TM2.02'' ''tm2'' 1 = Inr rs) \<and>
    isl (search_icd11_codes half_env ''K30'' ''biomedicine'' 1) \<and>
    translate_namaste_to_icd11 half_env ''NAM005'' ''both'' = Inr []) \<and>
   (map_of predefined_mappings ''X001'' = None \<and>
    get_namaste_code_details ''X001'' (sample_namaste_data small_half_env) = Some x001_entry \<and>
    ''cephalgia'' \<in> set (extract_search_terms small_half_env x001_entry) \<and>
    (\<exists>rs. search_icd11_codes small_half_env ''cephalgia'' ''tm2'' 3 = Inr rs) \<and>
    isl (search_icd11_codes small_half_env ''cephalgia'' ''biomedicine'' 3) \<and>
    translate_namaste_to_icd11 small_half_env ''X001'' ''both'' = Inr []) \<and>
   (reverse_predefined failing_env ''G99'' ''biomedicine'' = [] \<and>
    isl (get_icd11_code_details failing_env ''G99'') \<and>
    reverse_translate_icd11_to_namaste failing_env ''G99'' ''biomedicine'' = Inr [])"
proof -
  define k30 where "k30 =
    \<lparr>m_system = ''biomedicine'', m_code = ''K30'', m_equivalence = ''equivalent''\<rparr>"
  define ms where "ms =
    [\<lparr>m_system = ''tm2'', m_code = ''TM2.02'', m_equivalence = ''equivalent''\<rparr>, k30]"
  have a1: "map_of predefined_mappings ''NAM005'' = Some ms"
    unfolding ms_def k30_def by code_simp
  have a2: "k30 \<in> set ms"
    unfolding ms_def by simp
  have a3: "''both'' = ''both'' \<or> ''both'' = m_system k30"
    by simp
  have a4: "isl (search_icd11_codes half_env (m_code k30)
      (if m_system k30 = ''tm2'' then ''tm2'' else ''biomedicine'') 1)"
    unfolding k30_def by code_simp
  have a5: "\<exists>rs. search_icd11_codes half_env ''TM2.02'' ''tm2'' 1 = Inr rs"
    by (simp add: half_env_def demo_search_icd11_codes_def)
  have a6: "isl (search_icd11_codes half_env ''K30'' ''biomedicine'' 1)"
    by (simp add: half_env_def)
  have b1: "map_of predefined_mappings ''X001'' = None"
    by (simp add: predefined_mappings_def)
  have b2: "get_namaste_code_details ''X001'' (sample_namaste_data small_half_env) =
      Some x001_entry"
    by code_simp
  have b3: "''cephalgia'' \<in> set (extract_search_terms small_half_env x001_entry)"
    by code_simp
  have b4: "\<exists>rs. search_icd11_codes small_half_env ''cephalgia'' ''tm2'' 3 = Inr rs"
    by (simp add: small_half_env_def)
  have b5: "isl (search_icd11_codes small_half_env ''cephalgia'' ''biomedicine'' 3)"
    by (simp add: small_half_env_def)
  have b6: "(''both'' \<in> {''tm2'', ''both''} \<and>
       isl (search_icd11_codes small_half_env ''cephalgia'' ''tm2'' 3)) \<or>
      (''both'' \<in> {''biomedicine'', ''both''} \<and>
       isl (search_icd11_codes small_half_env ''cephalgia'' ''biomedicine'' 3))"
    using b5 by simp
  have c1: "reverse_predefined failing_env ''G99'' ''biomedicine'' = []"
    by (simp add: reverse_predefined_def predefined_mappings_def)
  have c2: "isl (get_icd11_code_details failing_env ''G99'')"
    by (simp add: failing_env_def)
  note thm_a = provider_failure_returns_empty_list[of half_env "''NAM005''" "''both''"
      "''G99''" "''biomedicine''" ms k30 x001_entry "''cephalgia''"]
  note thm_b = provider_failure_returns_empty_list[of small_half_env "''X001''" "''both''"
      "''G99''" "''biomedicine''" ms k30 x001_entry "''cephalgia''"]
  note thm_c = provider_failure_returns_empty_list[of failing_env "''X001''" "''both''"
      "''G99''" "''biomedicine''" ms k30 x001_entry "''cephalgia''"]
  have ra: "translate_namaste_to_icd11 half_env ''NAM005'' ''both'' = Inr []"
    by (rule thm_a[THEN conjunct2, THEN conjunct2, THEN conjunct1, rule_format,
          OF conjI[OF a1 conjI[OF a2 conjI[OF a3 a4]]]])
  have rb: "translate_namaste_to_icd11 small_half_env ''X001'' ''both'' = Inr []"
    by (rule thm_b[THEN conjunct2, THEN conjunct2, THEN conjunct2, THEN conjunct1, rule_format,
          OF conjI[OF b1 conjI[OF b2 conjI[OF b3 b6]]]])
  have rc: "reverse_translate_icd11_to_namaste failing_env ''G99'' ''biomedicine'' = Inr []"
    by (rule thm_c[THEN conjunct2, THEN conjunct2, THEN conjunct2, THEN conjunct2, rule_format,
          OF conjI[OF c1 c2]])
  show ?thesis
    by (intro conjI a1[unfolded ms_def k30_def] a5 a6 ra b1 b2 b3 b4 b5 rb c1 c2 rc)
qed

text \<open>
  Claim C1 as stated (the failure is propagated and never turned into an empty list)
  fails: with a provider whose every call raises, the forward translation of \<open>NAM001\<close>
  to \<open>tm2\<close> returns the empty list.
\<close>

theorem provider_failure_counterexample:
  "translate_namaste_to_icd11 failing_env ''NAM001'' ''tm2'' = Inr []"
  by (simp add: translate_namaste_to_icd11_def predefined_mappings_def failing_env_def)

section \<open>Predefined mappings short-circuit the resolver\<close>

lemma predefined_loop_results:
  "predefined_loop E t ms = Inr rs \<Longrightarrow> r \<in> set rs \<Longrightarrow>
   mappingMethod r = ''predefined'' \<and> confidence r = 0.9 \<and>
   (\<exists>m\<in>set ms. equivalence r = m_equivalence m \<and> (t = ''both'' \<or> t = m_system m))"
proof (induction ms arbitrary: rs)
  case Nil
  then show ?case by simp
next
  case (Cons m ms)
  show ?case
  proof (cases "t = ''both'' \<or> t = m_system m")
    case False
    with Cons.prems have "predefined_loop E t ms = Inr rs" by simp
    from Cons.IH[OF this Cons.prems(2)] show ?thesis by auto
  next
    case True
    then obtain found rest where
      rest: "predefined_loop E t ms = Inr rest" and
      rs: "rs = (case found of [] \<Rightarrow> [] | x # _ \<Rightarrow> [tag x (m_equivalence m) ''predefined'' 0.9]) @ rest"
      using Cons.prems(1) by (auto split: sum.splits if_splits)
    show ?thesis
    proof (cases "r \<in> set rest")
      case a: True
      from Cons.IH[OF rest a] show ?thesis by auto
    next
      case False
      with rs Cons.prems(2) obtain x xs where "found = x # xs"
        and "r = tag x (m_equivalence m) ''predefined'' 0.9"
        by (cases found) auto
      with True show ?thesis by (auto simp: tag_def)
    qed
  qed
qed

text \<open>
  Claim C2. For every source code that has an entry in the predefined mapping table,
  forward translation returns only candidates with method \<open>predefined\<close>, confidence
  exactly 0.9 and the equivalence of a curated entry that the requested target system
  selects; no candidate has method \<open>automatic\<close>, for any requested target system,
  \<open>both\<close> included. No heuristic search takes part: the result is the same whatever the
  similarity ratio, the order of the search terms and the source vocabulary are.
\<close>

theorem predefined_entry_short_circuits:
  assumes "map_of predefined_mappings namaste_code = Some ms"
  shows "\<exists>rs. translate_namaste_to_icd11 E namaste_code target_system = Inr rs \<and>
           (\<forall>r\<in>set rs. mappingMethod r = ''predefined'' \<and> mappingMethod r \<noteq> ''automatic'' \<and>
              confidence r = 0.9 \<and>
              (\<exists>m\<in>set ms. equivalence r = m_equivalence m \<and>
                 (target_system = ''both'' \<or> target_system = m_system m))) \<and>
           translate_namaste_to_icd11
             (E\<lparr>sequence_ratio := other_ratio, set_order := other_order,
                get_icd11_code_details := other_details, sample_namaste_data := other_data\<rparr>)
             namaste_code target_system = Inr rs"
proof (cases "predefined_loop E target_system ms")
  case (Inl e)
  moreover have "predefined_loop
      (E\<lparr>sequence_ratio := other_ratio, set_order := other_order,
         get_icd11_code_details := other_details, sample_namaste_data := other_data\<rparr>)
      target_system ms = predefined_loop E target_system ms"
    by (rule predefined_loop_cong) simp
  ultimately show ?thesis using assms by (simp add: translate_namaste_to_icd11_def)
next
  case (Inr rs)
  have same: "predefined_loop
      (E\<lparr>sequence_ratio := other_ratio, set_order := other_order,
         get_icd11_code_details := other_details, sample_namaste_data := other_data\<rparr>)
      target_system ms = predefined_loop E target_system ms"
    by (rule predefined_loop_cong) simp
  have "\<forall>r\<in>set rs. mappingMethod r = ''predefined'' \<and> mappingMethod r \<noteq> ''automatic'' \<and>
              confidence r = 0.9 \<and>
              (\<exists>m\<in>set ms. equivalence r = m_equivalence m \<and>
                 (target_system = ''both'' \<or> target_system = m_system m))"
    using predefined_loop_results[OF Inr] by fastforce
  with Inr same assms show ?thesis by (simp add: translate_namaste_to_icd11_def)
qed

theorem predefined_entry_short_circuits_witness:
  "map_of predefined_mappings ''NAM005'' =
     Some [\<lparr>m_system = ''tm2'', m_code = ''TM2.02'', m_equivalence = ''equivalent''\<rparr>,
           \<lparr>m_system = ''biomedicine'', m_code = ''K30'', m_equivalence = ''equivalent''\<rparr>] \<and>
   (\<exists>r1 r2. translate_namaste_to_icd11 demo_env ''NAM005'' ''both'' = Inr [r1, r2] \<and>
      code r1 = ''TM2.01'' \<and> code r2 = ''K59.0'' \<and>
      mappingMethod r1 = ''predefined'' \<and> mappingMethod r2 = ''predefined'' \<and>
      confidence r1 = 0.9 \<and> confidence r2 = 0.9 \<and>
      equivalence r1 = ''equivalent'' \<and> equivalence r2 = ''equivalent'' \<and>
      translate_namaste_to_icd11
        (demo_env\<lparr>sequence_ratio := (\<lambda>a b. 0), set_order := rev,
           get_icd11_code_details := (\<lambda>c. Inr None), sample_namaste_data := []\<rparr>)
        ''NAM005'' ''both'' = Inr [r1, r2])"
proof -
  have p: "map_of predefined_mappings ''NAM005'' =
     Some [\<lparr>m_system = ''tm2'', m_code = ''TM2.02'', m_equivalence = ''equivalent''\<rparr>,
           \<lparr>m_system = ''biomedicine'', m_code = ''K30'', m_equivalence = ''equivalent''\<rparr>]"
    by (simp add: predefined_mappings_def)
  have e: "translate_namaste_to_icd11 demo_env ''NAM005'' ''both'' =
     Inr [tag (mock_tm2_entities ! 0) ''equivalent'' ''predefined'' 0.9,
          tag (mock_biomedicine_entities ! 0) ''equivalent'' ''predefined'' 0.9]"
    by (simp add: translate_namaste_to_icd11_def p demo_env_def demo_search_icd11_codes_def
        mock_tm2_entities_def mock_biomedicine_entities_def)
  have c: "code (tag (mock_tm2_entities ! 0) ''equivalent'' ''predefined'' 0.9) = ''TM2.01'' \<and>
           code (tag (mock_biomedicine_entities ! 0) ''equivalent'' ''predefined'' 0.9) = ''K59.0''"
    by (simp add: tag_def mock_tm2_entities_def mock_biomedicine_entities_def)
  from predefined_entry_short_circuits[OF p, where E = demo_env and target_system = "''both''"
      and other_ratio = "\<lambda>a b. 0" and other_order = rev and other_details = "\<lambda>c. Inr None" and other_data = "[]"]
  obtain rs where rs: "translate_namaste_to_icd11 demo_env ''NAM005'' ''both'' = Inr rs"
    and props: "\<forall>r\<in>set rs. mappingMethod r = ''predefined'' \<and> mappingMethod r \<noteq> ''automatic'' \<and>
              confidence r = 0.9"
    and same: "translate_namaste_to_icd11
        (demo_env\<lparr>sequence_ratio := (\<lambda>a b. 0), set_order := rev,
           get_icd11_code_details := (\<lambda>c. Inr None), sample_namaste_data := []\<rparr>)
        ''NAM005'' ''both'' = Inr rs"
    by blast
  from rs e have "rs = [tag (mock_tm2_entities ! 0) ''equivalent'' ''predefined'' 0.9,
          tag (mock_biomedicine_entities ! 0) ''equivalent'' ''predefined'' 0.9]" by simp
  with p e c props same show ?thesis
    by (simp add: tag_def)
qed

section \<open>Unrecognised target systems\<close>

lemma predefined_systems:
  "map_of predefined_mappings c = Some ms \<Longrightarrow> m \<in> set ms \<Longrightarrow>
   m_system m = ''tm2'' \<or> m_system m = ''biomedicine''"
  by (auto simp: predefined_mappings_def split: if_splits)

lemma predefined_loop_no_match:
  "t \<noteq> ''both'' \<Longrightarrow> \<forall>m\<in>set ms. m_system m \<noteq> t \<Longrightarrow> predefined_loop E t ms = Inr []"
  by (induction ms) auto

lemma search_loop_no_target:
  "t \<notin> {''tm2'', ''biomedicine'', ''both''} \<Longrightarrow> search_loop E nd t ts = Inr []"
  by (induction ts) auto

text \<open>
  Claim C6, as amended. The resolver has no "unsupported system" signal. For a target
  system that is none of \<open>tm2\<close>, \<open>biomedicine\<close> and \<open>both\<close>, forward translation returns
  the empty candidate list, for every source code and every provider: the same value as
  a search that found nothing. Reverse translation with such a system identifier returns
  a list as well.
\<close>

theorem unsupported_target_returns_empty_list:
  assumes "target_system \<notin> {''tm2'', ''biomedicine'', ''both''}"
  shows "translate_namaste_to_icd11 E namaste_code target_system = Inr [] \<and>
         (\<exists>rs. reverse_translate_icd11_to_namaste E icd11_code target_system = Inr rs)"
proof -
  have "translate_namaste_to_icd11 E namaste_code target_system = Inr []"
  proof (cases "map_of predefined_mappings namaste_code")
  case None
  then show ?thesis
    using search_loop_no_target[OF assms]
    by (simp add: translate_namaste_to_icd11_def perform_automatic_mapping_def
        sort_by_confidence_def split: option.splits)
next
  case (Some ms)
  have "\<forall>m\<in>set ms. m_system m \<noteq> target_system"
    using predefined_systems[OF Some] assms by auto
  moreover have "target_system \<noteq> ''both''" using assms by simp
  ultimately have "predefined_loop E target_system ms = Inr []"
    using predefined_loop_no_match by blast
  with Some show ?thesis by (simp add: translate_namaste_to_icd11_def)
qed
  then show ?thesis using reverse_returns by blast
qed

theorem unsupported_target_returns_empty_list_witness:
  "''icd10'' \<notin> {''tm2'', ''biomedicine'', ''both''} \<and>
   translate_namaste_to_icd11 demo_env ''ZZZ999'' ''icd10'' = Inr [] \<and>
   (\<exists>rs. reverse_translate_icd11_to_namaste demo_env ''K30'' ''icd10'' = Inr rs)"
proof -
  have h: "''icd10'' \<notin> {''tm2'', ''biomedicine'', ''both''}" by simp
  from h unsupported_target_returns_empty_list[OF h, of demo_env "''ZZZ999''" "''K30''"]
  show ?thesis by blast
qed

text \<open>
  Claim C6 as stated (an explicit signal, not an empty list) fails: the forward
  translation of \<open>NAM001\<close> to the unknown system \<open>icd10\<close> is the empty list.
\<close>

theorem unsupported_target_counterexample:
  "translate_namaste_to_icd11 demo_env ''NAM001'' ''icd10'' = Inr []"
  by (simp add: translate_namaste_to_icd11_def predefined_mappings_def)

section \<open>Properties of the similarity scorer\<close>

lemma foldl_bonus_nonneg:
  "0 \<le> b \<Longrightarrow> 0 \<le> foldl (\<lambda>b t. if P t then b + (0.1::real) else b) b ts"
  by (induction ts arbitrary: b) auto

lemma keyword_bonus_bounds:
  "0 \<le> calculate_keyword_bonus a b \<and> calculate_keyword_bonus a b \<le> 1"
  using foldl_bonus_nonneg[of 0] by (simp add: calculate_keyword_bonus_def Let_def)

lemma lcs_le_left: "lcs a b \<le> length a"
  by (induction a b rule: lcs.induct) auto

lemma lcs_le_right: "lcs a b \<le> length b"
  by (induction a b rule: lcs.induct) auto

lemma lcs_refl: "lcs a a = length a"
  by (induction a) auto

lemma lcs_ratio_refl: "lcs_ratio a a = 1"
  by (simp add: lcs_ratio_def lcs_refl)

lemma lcs_ratio_bounds: "0 \<le> lcs_ratio a b \<and> lcs_ratio a b \<le> 1"
proof -
  have "2 * lcs a b \<le> length a + length b"
    using lcs_le_left[of a b] lcs_le_right[of a b] by linarith
  then have "2 * real (lcs a b) \<le> real (length a + length b)"
    by (metis of_nat_le_iff of_nat_mult of_nat_numeral)
  then show ?thesis
    by (auto simp: lcs_ratio_def divide_le_eq_1)
qed

lemma lcs_ratio_contract: "ratio_contract lcs_ratio"
  by (simp add: ratio_contract_def lcs_ratio_bounds lcs_ratio_refl)

text \<open>
  Claim C8. The similarity score of an entry against itself is at least 0.8, and the
  score of every pair of entries lies between 0 and 1. The text-similarity ratio is a
  library function; the theorem holds for every ratio that meets the contract of the
  specification (values between 0 and 1, and 1 on identical strings): identical display
  and definition then give ratio 1 each, so the two terms weighted 0.4 sum to 0.8, and the
  keyword bonus is never negative. The bound holds for every entry, whether or not its
  display and definition are empty.
\<close>

theorem calculate_similarity_bounds:
  assumes "ratio_contract (sequence_ratio E)"
  shows "calculate_similarity E e e \<ge> 0.8 \<and>
         0 \<le> calculate_similarity E a b \<and> calculate_similarity E a b \<le> 1"
proof -
  have self: "\<And>s. sequence_ratio E s s = 1"
    using assms by (simp add: ratio_contract_def)
  have lo: "\<And>s t. 0 \<le> sequence_ratio E s t"
    using assms by (simp add: ratio_contract_def)
  have "0 \<le> calculate_keyword_bonus e e"
    using keyword_bonus_bounds by simp
  then have one: "calculate_similarity E e e \<ge> 0.8"
    by (simp add: calculate_similarity_def Let_def self)
  have "0 \<le> calculate_keyword_bonus a b"
    using keyword_bonus_bounds by simp
  then have two: "0 \<le> calculate_similarity E a b"
    using lo[of "lower (display a)" "lower (display b)"]
      lo[of "lower (definition_text a)" "lower (definition_text b)"]
    by (simp add: calculate_similarity_def Let_def)
  have three: "calculate_similarity E a b \<le> 1"
    by (simp add: calculate_similarity_def Let_def)
  from one two three show ?thesis by simp
qed

theorem calculate_similarity_bounds_witness:
  "ratio_contract (sequence_ratio demo_env) \<and>
   calculate_similarity demo_env sample_entry sample_entry \<ge> 0.8 \<and>
   0 \<le> calculate_similarity demo_env sample_entry (hd mock_tm2_entities) \<and>
   calculate_similarity demo_env sample_entry (hd mock_tm2_entities) \<le> 1"
proof -
  have h: "ratio_contract (sequence_ratio demo_env)"
    by (simp add: demo_env_def lcs_ratio_contract)
  from calculate_similarity_bounds[OF h, of sample_entry sample_entry "hd mock_tm2_entities"]
  show ?thesis using h by blast
qed

section \<open>Search-term extraction takes the first matching rule of each group\<close>

text \<open>
  Claim C4, as amended. Search-term extraction is cumulative across its four rule
  groups and exclusive within each group. The returned term set is exactly the union of:
  the main term, when it is not empty; the terms of the first category rule that applies
  (digestive, else constitutional, else neurological); the terms of the first body-system
  rule that applies (gastrointestinal, else nervous); and the terms of the first
  display-keyword rule that applies (headache, else indigestion, else dosha). The
  hypothesis says that turning the collected list into a set and back keeps its elements.
\<close>

theorem extract_search_terms_first_match:
  assumes "set (set_order E (collected_terms e)) = set (collected_terms e)"
  shows "set (extract_search_terms E e) =
           (if main_term e \<noteq> [] then {main_term e} else {}) \<union>
           set (first_match category_rules (lower (category e))) \<union>
           set (first_match body_system_rules (lower (bodySystem e))) \<union>
           set (first_match display_rules (lower (display e)))"
proof -
  have c: "first_match category_rules (lower (category e)) =
      (if py_in ''digestive'' (lower (category e)) then [''digestion'', ''stomach'', ''gastric'']
       else if py_in ''constitutional'' (lower (category e))
         then [''constitutional'', ''temperament'', ''pattern'']
       else if py_in ''neurological'' (lower (category e))
         then [''neurological'', ''nervous'', ''brain'']
       else [])"
    by (simp only: category_rules_def first_match.simps)
  have b: "first_match body_system_rules (lower (bodySystem e)) =
      (if py_in ''gastrointestinal'' (lower (bodySystem e))
         then [''gastrointestinal'', ''digestive'']
       else if py_in ''nervous'' (lower (bodySystem e)) then [''nervous'', ''neurological'']
       else [])"
    by (simp only: body_system_rules_def first_match.simps)
  have d: "first_match display_rules (lower (display e)) =
      (if py_in ''headache'' (lower (display e)) then [''headache'', ''cephalgia'']
       else if py_in ''indigestion'' (lower (display e)) then [''indigestion'', ''dyspepsia'']
       else if py_in ''dosha'' (lower (display e)) then [''constitutional'', ''pattern'']
       else [])"
    by (simp only: display_rules_def first_match.simps)
  have "collected_terms e =
      (if main_term e \<noteq> [] then [main_term e] else []) @
      first_match category_rules (lower (category e)) @
      first_match body_system_rules (lower (bodySystem e)) @
      first_match display_rules (lower (display e))"
    by (simp only: collected_terms_def Let_def main_term_def c b d)
  then have "set (collected_terms e) =
           (if main_term e \<noteq> [] then {main_term e} else {}) \<union>
           set (first_match category_rules (lower (category e))) \<union>
           set (first_match body_system_rules (lower (bodySystem e))) \<union>
           set (first_match display_rules (lower (display e)))"
    by (simp only: set_append if_distrib[of set] list.set Un_assoc)
  with assms show ?thesis by (simp only: extract_search_terms_def)
qed

theorem extract_search_terms_first_match_witness:
  "set (set_order demo_env (collected_terms sample_entry)) = set (collected_terms sample_entry) \<and>
   extract_search_terms demo_env sample_entry =
     [''shirahshula'', ''brain'', ''nervous'', ''neurological'', ''headache'', ''cephalgia''] \<and>
   set (extract_search_terms demo_env sample_entry) =
     (if main_term sample_entry \<noteq> [] then {main_term sample_entry} else {}) \<union>
     set (first_match category_rules (lower (category sample_entry))) \<union>
     set (first_match body_system_rules (lower (bodySystem sample_entry))) \<union>
     set (first_match display_rules (lower (display sample_entry)))"
proof -
  have h: "set (set_order demo_env (collected_terms sample_entry)) =
      set (collected_terms sample_entry)"
    by (simp add: demo_env_def)
  have v: "extract_search_terms demo_env sample_entry =
     [''shirahshula'', ''brain'', ''nervous'', ''neurological'', ''headache'', ''cephalgia'']"
    by code_simp
  show ?thesis
    by (intro conjI h v extract_search_terms_first_match[OF h])
qed

text \<open>
  Claim C4 as stated (every applicable rule contributes) fails: for a display that
  contains both "headache" and "dosha" the headache rule applies and the dosha rule is
  not tried, so "constitutional" and "pattern" are not among the terms.
\<close>

theorem extract_search_terms_counterexample:
  "py_in ''headache'' (lower (display headache_dosha_entry)) \<and>
   py_in ''dosha'' (lower (display headache_dosha_entry)) \<and>
   extract_search_terms demo_env headache_dosha_entry =
     [''pitta dosha headache'', ''headache'', ''cephalgia'']"
  by code_simp

section \<open>Results of automatic forward translation\<close>

text \<open>
  Claim C5. For every source code without a predefined mapping entry, the
  forward-translation result satisfies all of: every returned candidate has confidence
  strictly greater than 0.3 and method \<open>automatic\<close>; the list is sorted in non-increasing
  order of confidence; and its length is at most 5. This holds for every provider, ratio,
  term order, source vocabulary and target system.
\<close>

theorem automatic_mapping_results:
  assumes "map_of predefined_mappings namaste_code = None"
  shows "\<exists>rs. translate_namaste_to_icd11 E namaste_code target_system = Inr rs \<and>
           (\<forall>r\<in>set rs. confidence r > 0.3 \<and> mappingMethod r = ''automatic'') \<and>
           sorted_wrt (\<lambda>a b. a \<ge> b) (map confidence rs) \<and> length rs \<le> 5"
proof (cases "get_namaste_code_details namaste_code (sample_namaste_data E)")
  case None
  with assms show ?thesis
    by (simp add: translate_namaste_to_icd11_def perform_automatic_mapping_def)
next
  case (Some nd)
  show ?thesis
  proof (cases "search_loop E nd target_system (extract_search_terms E nd)")
    case (Inl e)
    with assms Some show ?thesis
      by (simp add: translate_namaste_to_icd11_def perform_automatic_mapping_def)
  next
    case (Inr results)
    define rs where "rs = take 5 (unique_results {} (sort_by_confidence results))"
    have res: "translate_namaste_to_icd11 E namaste_code target_system = Inr rs"
      using assms Some Inr
      by (simp add: translate_namaste_to_icd11_def perform_automatic_mapping_def rs_def)
    have sub: "set rs \<subseteq> set results"
      using unique_results_subset[of "{}" "sort_by_confidence results"]
        set_take_subset[of 5 "unique_results {} (sort_by_confidence results)"]
      by (auto simp: rs_def set_sort_by_confidence)
    have props: "\<forall>r\<in>set rs. confidence r > 0.3 \<and> mappingMethod r = ''automatic''"
      using sub search_loop_results[OF Inr] by blast
    have "sorted_wrt (\<lambda>a b. confidence a \<ge> confidence b) rs"
      unfolding rs_def
      by (intro sorted_wrt_take unique_results_sorted sorted_sort_by_confidence)
    then have srt: "sorted_wrt (\<lambda>a b. a \<ge> b) (map confidence rs)"
      by (simp add: sorted_wrt_map)
    have len: "length rs \<le> 5" by (simp add: rs_def)
    from res props srt len show ?thesis by blast
  qed
qed

theorem automatic_mapping_results_witness:
  "map_of predefined_mappings ''X001'' = None \<and>
   (\<exists>rs. translate_namaste_to_icd11 small_env ''X001'' ''both'' = Inr rs \<and>
      map code rs = [''A'', ''I'', ''F'', ''G'', ''H''] \<and>
      map confidence rs = [21 / 25, 21 / 25, 53 / 75, 87 / 125, 20 / 39] \<and>
      map mappingMethod rs =
        [''automatic'', ''automatic'', ''automatic'', ''automatic'', ''automatic''] \<and>
      sorted_wrt (\<lambda>a b. a \<ge> b) (map confidence rs) \<and> length rs \<le> 5)"
proof -
  have p: "map_of predefined_mappings ''X001'' = None"
    by (simp add: predefined_mappings_def)
  from automatic_mapping_results[OF p, of small_env "''both''"]
  obtain rs where rs: "translate_namaste_to_icd11 small_env ''X001'' ''both'' = Inr rs"
    and srt: "sorted_wrt (\<lambda>a b. a \<ge> b) (map confidence rs)" and len: "length rs \<le> 5"
    by blast
  have pr: "projr (translate_namaste_to_icd11 small_env ''X001'' ''both'') = rs"
    by (simp only: rs sum.sel)
  note all = small_env_forward[unfolded pr]
  have c: "map code rs = [''A'', ''I'', ''F'', ''G'', ''H'']"
    using arg_cong[OF all, of "map (\<lambda>t. fst (snd t))"]
    by (simp only: list.map map_map comp_def fst_conv snd_conv)
  have v: "map confidence rs = [21 / 25, 21 / 25, 53 / 75, 87 / 125, 20 / 39]"
    using arg_cong[OF all, of "map (\<lambda>t. fst (snd (snd t)))"]
    by (simp only: list.map map_map comp_def fst_conv snd_conv)
  have m: "map mappingMethod rs =
      [''automatic'', ''automatic'', ''automatic'', ''automatic'', ''automatic'']"
    using arg_cong[OF all, of "map (\<lambda>t. snd (snd (snd t)))"]
    by (simp only: list.map map_map comp_def fst_conv snd_conv)
  show ?thesis
    by (intro conjI exI[of _ rs] p rs c v m srt len)
qed

section \<open>Deduplication of forward results\<close>






lemma sub_system_urls_differ: "icd11_tm2_url \<noteq> icd11_biomedicine_url"
  by (simp add: icd11_tm2_url_def icd11_biomedicine_url_def)









text \<open>
  The stamp is what keeps the predefined path free of duplicates: with a provider that
  answers every search with the same entries, whatever the sub-system, the two table
  entries of \<open>NAM005\<close> yield the same (target system, target code) pair twice.
\<close>

lemma unstamped_provider_duplicates:
  "\<not> stamps_sub_system unstamped_env \<and>
   map target_pair (projr (translate_namaste_to_icd11 unstamped_env ''NAM005'' ''both'')) =
     [(icd11_tm2_url, ''TM2.01''), (icd11_tm2_url, ''TM2.01'')]"
proof -
  have "search_icd11_codes unstamped_env [] ''biomedicine'' 0 = Inr mock_tm2_entities"
    by (simp add: unstamped_env_def)
  moreover have "hd mock_tm2_entities \<in> set mock_tm2_entities"
    by (simp add: mock_tm2_entities_def)
  moreover have "system (hd mock_tm2_entities) \<noteq> icd11_biomedicine_url"
    using sub_system_urls_differ by (simp add: mock_tm2_entities_def)
  ultimately have a: "\<not> stamps_sub_system unstamped_env"
    unfolding stamps_sub_system_def by blast
  have b: "map target_pair
      (projr (translate_namaste_to_icd11 unstamped_env ''NAM005'' ''both'')) =
     [(icd11_tm2_url, ''TM2.01''), (icd11_tm2_url, ''TM2.01'')]"
    by code_simp
  from a b show ?thesis by (rule conjI)
qed





section \<open>ConceptMap assembly is deterministic in its groups\<close>

lemma shipped_codes_predefined:
  "map_of predefined_mappings c = None \<Longrightarrow>
   get_namaste_code_details c create_sample_namaste_data = None"
  by (simp add: predefined_mappings_def create_sample_namaste_data_def split: if_splits)

lemma translate_set_order:
  assumes "sample_namaste_data E = create_sample_namaste_data"
  shows "translate_namaste_to_icd11 (E\<lparr>set_order := other_order\<rparr>) c t =
         translate_namaste_to_icd11 E c t"
proof (cases "map_of predefined_mappings c")
  case None
  then have "get_namaste_code_details c create_sample_namaste_data = None"
    by (rule shipped_codes_predefined)
  with None assms show ?thesis
    by (simp add: translate_namaste_to_icd11_def perform_automatic_mapping_def)
next
  case (Some ms)
  have "predefined_loop (E\<lparr>set_order := other_order\<rparr>) t ms = predefined_loop E t ms"
    by (rule predefined_loop_cong) simp
  with Some show ?thesis by (simp add: translate_namaste_to_icd11_def)
qed

lemma target_of_set_order: "target_of (E\<lparr>set_order := other_order\<rparr>) = target_of E"
  by (rule ext) (simp add: target_of_def)

lemma group_element_set_order:
  assumes "sample_namaste_data E = create_sample_namaste_data"
  shows "group_element (E\<lparr>set_order := other_order\<rparr>) r t = group_element E r t"
  unfolding group_element_def translate_set_order[OF assms] target_of_set_order
  by (rule refl)

lemma group_element_returns: "\<exists>els. group_element E r t = Inr els"
  using translate_returns[of E "row_code r" t] by (auto simp: group_element_def)

lemma assemble_rows_elements:
  "assemble_rows E rows (a, b) =
     Inr (a @ concat (map (row_elements E ''tm2'') rows),
          b @ concat (map (row_elements E ''biomedicine'') rows))"
proof (induction rows arbitrary: a b)
  case Nil
  then show ?case by simp
next
  case (Cons r rows)
  obtain t2 where t2: "group_element E r ''tm2'' = Inr t2"
    using group_element_returns by blast
  obtain bi where bi: "group_element E r ''biomedicine'' = Inr bi"
    using group_element_returns by blast
  from Cons[of "a @ t2" "b @ bi"] t2 bi show ?case
    by (simp add: row_elements_def)
qed

lemma row_elements_set_order:
  assumes "sample_namaste_data E = create_sample_namaste_data"
  shows "row_elements (E\<lparr>set_order := other_order\<rparr>) t r = row_elements E t r"
  by (simp add: row_elements_def group_element_set_order[OF assms])

text \<open>
  Claim C9. ConceptMap assembly is deterministic in its groups. The resolver looks
  source codes up in the vocabulary of \<open>create_sample_namaste_data\<close>, as the code does on
  every call, and the provider is a function of the query (identical responses to
  identical queries). Two calls on the same rows may then differ in the identifier drawn
  from \<open>uuid4\<close>, in the time stamp and in the order in which the interpreter iterates over
  the set of search terms: both calls return a ConceptMap, the two maps have the same
  list of groups, and the elements of the two groups are, row by row and in row order,
  what the forward translation of the row's code to \<open>tm2\<close> and to \<open>biomedicine\<close> yields,
  hence the same target codes, equivalences and provenance comments.
\<close>

theorem concept_map_groups_deterministic:
  assumes "sample_namaste_data E = create_sample_namaste_data"
  shows "\<exists>m1 m2. generate_concept_map E uuid_a now_a rows = Inr m1 \<and>
            generate_concept_map (E\<lparr>set_order := other_order\<rparr>) uuid_b now_b rows = Inr m2 \<and>
            cm_group m1 = cm_group m2 \<and>
            map g_element (cm_group m1) =
              [concat (map (row_elements E ''tm2'') rows),
               concat (map (row_elements E ''biomedicine'') rows)]"
proof -
  have same: "map (row_elements (E\<lparr>set_order := other_order\<rparr>) t) rows =
      map (row_elements E t) rows" for t
    by (simp add: row_elements_set_order[OF assms])
  show ?thesis
    by (simp add: generate_concept_map_def assemble_rows_elements same)
qed

theorem concept_map_groups_deterministic_witness:
  "sample_namaste_data demo_env = create_sample_namaste_data \<and>
   (\<exists>m1 m2.
      generate_concept_map demo_env ''0a1b2c3d'' ''2024-01-01''
        (take 1 create_sample_namaste_data) = Inr m1 \<and>
      generate_concept_map (demo_env\<lparr>set_order := rev\<rparr>) ''ffffffff'' ''2025-06-30''
        (take 1 create_sample_namaste_data) = Inr m2 \<and>
      cm_group m1 = cm_group m2 \<and>
      map (map (\<lambda>e. (e_code e, map t_code (e_target e), map t_comment (e_target e))))
        (map g_element (cm_group m1)) =
        [[(''NAM001'', [''TM2.01''], [''Mapped via predefined method with confidence 0.90''])],
         [(''NAM001'', [''K59.0''], [''Mapped via predefined method with confidence 0.90''])]])"
proof -
  have h: "sample_namaste_data demo_env = create_sample_namaste_data"
    by (simp add: demo_env_def)
  have ev: "map (map (\<lambda>e. (e_code e, map t_code (e_target e), map t_comment (e_target e))))
      [concat (map (row_elements demo_env ''tm2'') (take 1 create_sample_namaste_data)),
       concat (map (row_elements demo_env ''biomedicine'') (take 1 create_sample_namaste_data))] =
        [[(''NAM001'', [''TM2.01''], [''Mapped via predefined method with confidence 0.90''])],
         [(''NAM001'', [''K59.0''], [''Mapped via predefined method with confidence 0.90''])]]"
    by code_simp
  note ex = concept_map_groups_deterministic[OF h, where uuid_a = "''0a1b2c3d''"
      and now_a = "''2024-01-01''" and rows = "take 1 create_sample_namaste_data"
      and other_order = rev and uuid_b = "''ffffffff''" and now_b = "''2025-06-30''"]
  from ex obtain m1 where ex1: "\<exists>m2.
      generate_concept_map demo_env ''0a1b2c3d'' ''2024-01-01''
        (take 1 create_sample_namaste_data) = Inr m1 \<and>
      generate_concept_map (demo_env\<lparr>set_order := rev\<rparr>) ''ffffffff'' ''2025-06-30''
        (take 1 create_sample_namaste_data) = Inr m2 \<and>
      cm_group m1 = cm_group m2 \<and>
      map g_element (cm_group m1) =
        [concat (map (row_elements demo_env ''tm2'') (take 1 create_sample_namaste_data)),
         concat (map (row_elements demo_env ''biomedicine'')
           (take 1 create_sample_namaste_data))]" ..
  then obtain m2 where all:
     "generate_concept_map demo_env ''0a1b2c3d'' ''2024-01-01''
        (take 1 create_sample_namaste_data) = Inr m1 \<and>
      generate_concept_map (demo_env\<lparr>set_order := rev\<rparr>) ''ffffffff'' ''2025-06-30''
        (take 1 create_sample_namaste_data) = Inr m2 \<and>
      cm_group m1 = cm_group m2 \<and>
      map g_element (cm_group m1) =
        [concat (map (row_elements demo_env ''tm2'') (take 1 create_sample_namaste_data)),
         concat (map (row_elements demo_env ''biomedicine'')
           (take 1 create_sample_namaste_data))]" ..
  note a = all[THEN conjunct1]
  note b = all[THEN conjunct2, THEN conjunct1]
  note c = all[THEN conjunct2, THEN conjunct2, THEN conjunct1]
  note d = all[THEN conjunct2, THEN conjunct2, THEN conjunct2]
  note e = ev[folded d]
  show ?thesis
    by (intro conjI exI[of _ m1] exI[of _ m2] h a b c e)
qed

section \<open>Mapping validation and the predefined table\<close>

text \<open>
  Claim C10. Mapping validation never consults the predefined mapping table: whenever
  the source code resolves in the source vocabulary and the provider's search for the
  target code returns an entry, the confidence of the verdict is the heuristic similarity
  score of the two looked-up entries, and validity and recommendation follow from that
  score alone (above 0.6 Accept, above 0.3 Review, else Reject). The fixed confidence 0.9
  of the predefined path is not used, so a pair the curators assert can be scored below
  the Accept threshold: the example after the theorem is the curated pair
  \<open>NAM002\<close> / \<open>Z73.3\<close>, scored 0 and rejected when the provider returns the target
  entry without text.
\<close>

theorem validate_mapping_ignores_predefined:
  assumes "get_namaste_code_details namaste_code (sample_namaste_data E) = Some nd"
    and "search_icd11_codes E icd11_code icd11_system 1 = Inr (icd # rest)"
  shows "\<exists>v. validate_mapping E namaste_code icd11_code icd11_system = Verdict v \<and>
             v_confidence v = calculate_similarity E nd icd \<and>
             valid v = (calculate_similarity E nd icd > 0.3) \<and>
             recommendation v =
               (if calculate_similarity E nd icd > 0.6 then ''Accept''
                else if calculate_similarity E nd icd > 0.3 then ''Review'' else ''Reject'')"
  using assms by (simp add: validate_mapping_def Let_def)

theorem validate_mapping_ignores_predefined_witness:
  "map_of predefined_mappings ''NAM002'' =
     Some [\<lparr>m_system = ''tm2'', m_code = ''TM2.01'', m_equivalence = ''equivalent''\<rparr>,
           \<lparr>m_system = ''biomedicine'', m_code = ''Z73.3'', m_equivalence = ''wider''\<rparr>] \<and>
   get_namaste_code_details ''NAM002'' (sample_namaste_data untexted_env) = Some vata_entry \<and>
   search_icd11_codes untexted_env ''Z73.3'' ''biomedicine'' 1 = Inr [untexted_z733] \<and>
   (\<exists>v. validate_mapping untexted_env ''NAM002'' ''Z73.3'' ''biomedicine'' = Verdict v \<and>
        v_confidence v = 0 \<and> \<not> valid v \<and> recommendation v = ''Reject'')"
proof -
  have p: "map_of predefined_mappings ''NAM002'' =
     Some [\<lparr>m_system = ''tm2'', m_code = ''TM2.01'', m_equivalence = ''equivalent''\<rparr>,
           \<lparr>m_system = ''biomedicine'', m_code = ''Z73.3'', m_equivalence = ''wider''\<rparr>]"
    by (simp add: predefined_mappings_def)
  have a: "get_namaste_code_details ''NAM002'' (sample_namaste_data untexted_env) = Some vata_entry"
    by (simp add: untexted_env_def create_sample_namaste_data_def format_row_def vata_entry_def)
  have b: "search_icd11_codes untexted_env ''Z73.3'' ''biomedicine'' 1 = Inr [untexted_z733]"
    by (simp add: untexted_env_def untexted_z733_def)
  have c: "calculate_similarity untexted_env vata_entry untexted_z733 = 0"
    by code_simp
  from validate_mapping_ignores_predefined[OF a b] c p a b show ?thesis
    by simp
qed

end
